theory Spec2Isabelle
  imports Complex_Main
begin

section \<open>Numeric values of the sample arrays\<close>

text \<open>
  The channels are numpy arrays of floating-point samples. A sample is modelled as an exact
  real number, with the two zeros and the three non-finite values of the arithmetic kept
  apart: \<open>Fin 0\<close> is the positive zero, \<open>NegZero\<close> the negative zero \<open>-0.0\<close>. Rounding is not
  modelled. The non-finite values matter because numpy's array division does not raise on
  a zero divisor: it yields \<open>nan\<close> or an infinity (with a warning). The sign of zero matters
  to the arc tangent.
\<close>

datatype npfloat = Fin real | NegZero | PInf | NInf | NaN

text \<open>The Python exceptions that the modelled statements can raise, together with the two
  error names of the specification's taxonomy that the source raises nowhere
  (\<open>SilentChannelError\<close>, \<open>InvalidFrameRate\<close>).\<close>

datatype py_exception =
    ZeroDivisionError
  | ValueError
  | FileNotFoundError
  | OtherException
  | SilentChannelError
  | InvalidFrameRate

text \<open>The real number that a finite value stands for, and the sign bit of a value.\<close>

fun real_of :: "npfloat \<Rightarrow> real" where
  "real_of (Fin x) = x"
| "real_of _ = 0"

fun is_finite :: "npfloat \<Rightarrow> bool" where
  "is_finite (Fin x) = True"
| "is_finite NegZero = True"
| "is_finite _ = False"

fun is_inf :: "npfloat \<Rightarrow> bool" where
  "is_inf PInf = True"
| "is_inf NInf = True"
| "is_inf _ = False"

fun signbit :: "npfloat \<Rightarrow> bool" where
  "signbit (Fin x) = (x < 0)"
| "signbit NegZero = True"
| "signbit NInf = True"
| "signbit _ = False"

definition signed_zero :: "bool \<Rightarrow> npfloat" where
  "signed_zero negative = (if negative then NegZero else Fin 0)"

definition signed_inf :: "bool \<Rightarrow> npfloat" where
  "signed_inf negative = (if negative then NInf else PInf)"

text \<open>The value of a finite result \<open>x\<close> whose sign, which only a zero needs, is given.\<close>

definition finite_result :: "bool \<Rightarrow> real \<Rightarrow> npfloat" where
  "finite_result negative x = (if x = 0 then signed_zero negative else Fin x)"

fun np_abs :: "npfloat \<Rightarrow> npfloat" where
  "np_abs (Fin x) = Fin \<bar>x\<bar>"
| "np_abs NegZero = Fin 0"
| "np_abs PInf = PInf"
| "np_abs NInf = PInf"
| "np_abs NaN = NaN"

text \<open>Addition: a sum of finite values that is zero is the positive zero, unless both
  operands are the negative zero.\<close>

fun np_add :: "npfloat \<Rightarrow> npfloat \<Rightarrow> npfloat" where
  "np_add NaN _ = NaN"
| "np_add _ NaN = NaN"
| "np_add (Fin x) (Fin y) = Fin (x + y)"
| "np_add NegZero NegZero = NegZero"
| "np_add NegZero (Fin y) = Fin y"
| "np_add (Fin x) NegZero = Fin x"
| "np_add PInf NInf = NaN"
| "np_add NInf PInf = NaN"
| "np_add PInf _ = PInf"
| "np_add NInf _ = NInf"
| "np_add _ b = b"

text \<open>Multiplication and division: the sign of the result is the exclusive or of the
  operands' signs, also for a zero and an infinity; \<open>0 * inf\<close>, \<open>inf / inf\<close> and \<open>0 / 0\<close>
  are \<open>nan\<close>; a non-zero finite value divided by a zero is an infinity.\<close>

definition np_mul :: "npfloat \<Rightarrow> npfloat \<Rightarrow> npfloat" where
  "np_mul a b =
     (if a = NaN \<or> b = NaN then NaN
      else if is_inf a \<or> is_inf b then
        (if (is_finite a \<and> real_of a = 0) \<or> (is_finite b \<and> real_of b = 0) then NaN
         else signed_inf (signbit a \<noteq> signbit b))
      else finite_result (signbit a \<noteq> signbit b) (real_of a * real_of b))"

definition np_divide :: "npfloat \<Rightarrow> npfloat \<Rightarrow> npfloat" where
  "np_divide a b =
     (if a = NaN \<or> b = NaN then NaN
      else if is_inf a then (if is_inf b then NaN else signed_inf (signbit a \<noteq> signbit b))
      else if is_inf b then signed_zero (signbit a \<noteq> signbit b)
      else if real_of b = 0 then
        (if real_of a = 0 then NaN else signed_inf (signbit a \<noteq> signbit b))
      else finite_result (signbit a \<noteq> signbit b) (real_of a / real_of b))"

fun np_sqrt :: "npfloat \<Rightarrow> npfloat" where
  "np_sqrt (Fin x) = (if 0 \<le> x then Fin (sqrt x) else NaN)"
| "np_sqrt NegZero = NegZero"
| "np_sqrt PInf = PInf"
| "np_sqrt NInf = NaN"
| "np_sqrt NaN = NaN"

text \<open>\<open>a**2\<close> on an array squares every element.\<close>

definition np_square :: "npfloat \<Rightarrow> npfloat" where
  "np_square a = np_mul a a"

text \<open>The two-argument arc tangent on the reals: the angle of the point \<open>(x, y)\<close>,
  chosen in \<open>(-\<pi>, \<pi>]\<close>, and \<open>0\<close> at the origin.\<close>

definition arctan2 :: "real \<Rightarrow> real \<Rightarrow> real" where
  "arctan2 y x =
     (if 0 < x then arctan (y / x)
      else if x < 0 then (if 0 \<le> y then arctan (y / x) + pi else arctan (y / x) - pi)
      else if 0 < y then pi / 2
      else if y < 0 then - (pi / 2)
      else 0)"

definition with_sign :: "bool \<Rightarrow> real \<Rightarrow> npfloat" where
  "with_sign negative v = Fin (if negative then - v else v)"

text \<open>
  \<open>np.arctan2(y, x)\<close> on floating-point values. The result carries the sign of \<open>y\<close>. For a
  zero \<open>y\<close> it is that zero when \<open>x\<close> has a clear sign bit and \<open>\<plusminus>\<pi>\<close> when \<open>x\<close> has its sign bit
  set (negative or the negative zero): \<open>arctan2(-0.0, -1.0)\<close> is \<open>-\<pi>\<close>. For non-zero finite
  operands it is the real arc tangent above.
\<close>

definition np_arctan2 :: "npfloat \<Rightarrow> npfloat \<Rightarrow> npfloat" where
  "np_arctan2 y x =
     (if y = NaN \<or> x = NaN then NaN
      else if is_inf y then
        (if is_inf x then with_sign (signbit y) (if signbit x then 3 * pi / 4 else pi / 4)
         else with_sign (signbit y) (pi / 2))
      else if is_inf x then
        (if signbit x then with_sign (signbit y) pi else signed_zero (signbit y))
      else if real_of y = 0 then
        (if signbit x then with_sign (signbit y) pi else y)
      else if real_of x = 0 then with_sign (signbit y) (pi / 2)
      else Fin (arctan2 (real_of y) (real_of x)))"

text \<open>\<open>np.maximum(a, b)\<close>: \<open>nan\<close> if either is \<open>nan\<close>, else \<open>b\<close> if \<open>a < b\<close>, else \<open>a\<close>; the two
  zeros compare equal.\<close>

fun np_less :: "npfloat \<Rightarrow> npfloat \<Rightarrow> bool" where
  "np_less NaN _ = False"
| "np_less _ NaN = False"
| "np_less PInf _ = False"
| "np_less _ NInf = False"
| "np_less NInf _ = True"
| "np_less _ PInf = True"
| "np_less a b = (real_of a < real_of b)"

definition np_maximum :: "npfloat \<Rightarrow> npfloat \<Rightarrow> npfloat" where
  "np_maximum a b = (if a = NaN \<or> b = NaN then NaN else if np_less a b then b else a)"

text \<open>\<open>np.max\<close> of an array: a reduction with \<open>maximum\<close>; it raises \<open>ValueError\<close> on an
  array without elements.\<close>

definition np_max :: "npfloat list \<Rightarrow> py_exception + npfloat" where
  "np_max xs = (case xs of [] \<Rightarrow> Inl ValueError | x # rest \<Rightarrow> Inr (foldl np_maximum x rest))"

text \<open>\<open>np.sum\<close>: a reduction with addition from the first element on; \<open>0.0\<close> on an array
  without elements.\<close>

definition np_sum :: "npfloat list \<Rightarrow> npfloat" where
  "np_sum xs = (case xs of [] \<Rightarrow> Fin 0 | x # rest \<Rightarrow> foldl np_add x rest)"

text \<open>\<open>np.mean\<close>: the sum divided by the number of elements; on an empty array this is
  \<open>0.0 / 0\<close>, that is \<open>nan\<close>, not an exception.\<close>

definition np_mean :: "npfloat list \<Rightarrow> npfloat" where
  "np_mean xs = np_divide (np_sum xs) (Fin (real (length xs)))"

section \<open>Channel normalization\<close>

text \<open>
  \<^verbatim>\<open>left_channel = left_channel / np.max(np.abs(left_channel))\<close>
  (and the same statement for the right channel; \<^verbatim>\<open>vizlab.py\<close> writes it with \<^verbatim>\<open>/=\<close>).
\<close>

definition normalize_channel :: "npfloat list \<Rightarrow> py_exception + npfloat list" where
  "normalize_channel channel =
     (case np_max (map np_abs channel) of
        Inl e \<Rightarrow> Inl e
      | Inr peak \<Rightarrow> Inr (map (\<lambda>v. np_divide v peak) channel))"

section \<open>Windowing\<close>

text \<open>\<open>int(a / b)\<close> on Python integers: true division, then truncation toward zero.
  The quotient is a double; for operands below \<open>2^32\<close> in absolute value its truncation
  is the truncation of the exact quotient, which is what is modelled.\<close>

definition py_int_truediv :: "int \<Rightarrow> int \<Rightarrow> py_exception + int" where
  "py_int_truediv a b =
     (if b = 0 then Inl ZeroDivisionError
      else Inr (sgn a * sgn b * (\<bar>a\<bar> div \<bar>b\<bar>)))"

text \<open>\<open>a // b\<close> on Python integers: floor division.\<close>

definition py_floordiv :: "int \<Rightarrow> int \<Rightarrow> py_exception + int" where
  "py_floordiv a b = (if b = 0 then Inl ZeroDivisionError else Inr (a div b))"

text \<open>\<open>xs[start:end]\<close>: a negative bound counts from the end, and bounds are clipped to
  the array.\<close>

definition py_slice :: "'a list \<Rightarrow> int \<Rightarrow> int \<Rightarrow> 'a list" where
  "py_slice xs start end =
     (let n = int (length xs);
          clip = (\<lambda>k. if k < 0 then max 0 (n + k) else min k n);
          lo = clip start;
          hi = clip end
      in take (nat (hi - lo)) (drop (nat lo) xs))"

text \<open>
  \<^verbatim>\<open>frame_step = int(sr / self.fps)\<close>
  \<^verbatim>\<open>num_frames = len(left_channel) // frame_step\<close>
\<close>

definition frame_layout :: "int \<Rightarrow> int \<Rightarrow> nat \<Rightarrow> py_exception + (int \<times> int)" where
  "frame_layout sr fps total_samples =
     (case py_int_truediv sr fps of
        Inl e \<Rightarrow> Inl e
      | Inr frame_step \<Rightarrow>
          (case py_floordiv (int total_samples) frame_step of
             Inl e \<Rightarrow> Inl e
           | Inr num_frames \<Rightarrow> Inr (frame_step, num_frames)))"

text \<open>
  The chunk of one channel for frame \<open>i\<close>:
  \<^verbatim>\<open>start = i * frame_step\<close>
  \<^verbatim>\<open>end = min(start + frame_step, len(left_channel))\<close>
  \<^verbatim>\<open>left_chunk = left_channel[start:end]\<close>
  The bound \<open>end\<close> is computed from the length of the left channel for both channels.
\<close>

definition chunk_at :: "'a list \<Rightarrow> nat \<Rightarrow> int \<Rightarrow> nat \<Rightarrow> 'a list" where
  "chunk_at channel len_left frame_step i =
     (let start = int i * frame_step;
          end = min (start + frame_step) (int len_left)
      in py_slice channel start end)"

text \<open>The windows in the order in which the loop \<^verbatim>\<open>for i in range(num_frames)\<close> visits them.\<close>

definition frame_windows ::
  "'a list \<Rightarrow> 'a list \<Rightarrow> int \<Rightarrow> int \<Rightarrow> py_exception + ('a list \<times> 'a list) list" where
  "frame_windows left_channel right_channel sr fps =
     (case frame_layout sr fps (length left_channel) of
        Inl e \<Rightarrow> Inl e
      | Inr (frame_step, num_frames) \<Rightarrow>
          Inr (map (\<lambda>i. (chunk_at left_channel (length left_channel) frame_step i,
                         chunk_at right_channel (length left_channel) frame_step i))
                   [0 ..< nat num_frames]))"

section \<open>Polar projection\<close>

text \<open>
  \<^verbatim>\<open>amplitude = np.mean(np.abs(left_chunk) + np.abs(right_chunk)) * self.amplitude_scale\<close>
  \<^verbatim>\<open>theta = np.arctan2(right_chunk, left_chunk)\<close>
  \<^verbatim>\<open>r = np.sqrt(left_chunk**2 + right_chunk**2) * (1 + amplitude)\<close>
  The two chunks of a frame have the same length, so the element-wise operations pair
  the samples by index.
\<close>

record polar_scatter =
  amplitude :: npfloat
  theta :: "npfloat list"
  radius :: "npfloat list"

definition polar_projection :: "real \<Rightarrow> npfloat list \<Rightarrow> npfloat list \<Rightarrow> polar_scatter" where
  "polar_projection amplitude_scale left_chunk right_chunk =
     (let amp = np_mul (np_mean (map2 np_add (map np_abs left_chunk) (map np_abs right_chunk)))
                       (Fin amplitude_scale);
          th = map2 np_arctan2 right_chunk left_chunk;
          r = map (\<lambda>v. np_mul v (np_add (Fin 1) amp))
                  (map np_sqrt (map2 np_add (map np_square left_chunk) (map np_square right_chunk)))
      in \<lparr>amplitude = amp, theta = th, radius = r\<rparr>)"

section \<open>Names of the frame files\<close>

text \<open>\<open>str(n)\<close> for a natural number: its decimal digits.\<close>

definition digit_char :: "nat \<Rightarrow> char" where
  "digit_char d = ''0123456789'' ! d"

fun py_str_nat :: "nat \<Rightarrow> string" where
  "py_str_nat n = (if n < 10 then [digit_char n] else py_str_nat (n div 10) @ [digit_char (n mod 10)])"

declare py_str_nat.simps [simp del]

text \<open>\<^verbatim>\<open>f"{i:05d}"\<close>: the digits, padded on the left with zeros to five characters;
  the encoder's pattern \<^verbatim>\<open>frame_%05d.png\<close> formats an index in the same way.\<close>

definition fmt_05d :: "nat \<Rightarrow> string" where
  "fmt_05d i = replicate (5 - length (py_str_nat i)) (CHR ''0'') @ py_str_nat i"

definition frame_file :: "nat \<Rightarrow> string" where
  "frame_file i = ''frame_'' @ fmt_05d i @ ''.png''"

definition endswith :: "string \<Rightarrow> string \<Rightarrow> bool" where
  "endswith s suffix = (length suffix \<le> length s \<and> drop (length s - length suffix) s = suffix)"

section \<open>The worker, its signals and its environment\<close>

record worker =
  audio_file :: string
  fps :: int
  resolution :: "int \<times> int"
  color :: "int \<times> int \<times> int"
  amplitude_scale :: real
  point_size :: real

text \<open>The three Qt signals of the worker. A progress signal is recorded with the two
  operands \<open>i + 1\<close> and \<open>num_frames\<close> of the emitted percentage
  \<^verbatim>\<open>int((i + 1) / num_frames * 100)\<close>.\<close>

datatype signal = Progress nat int | Finished string | Error string

datatype log_entry = FrameGenerationFailed py_exception | VideoCompilationFailed

text \<open>The arguments that \<^verbatim>\<open>compile_video\<close> hands to ffmpeg: the image sequence and its
  input frame rate, the target size of the scale and pad filters, the codec options, and
  the output options \<open>r\<close> (frame rate) and \<open>t\<close> (duration limit, in seconds). The paths of
  the audio input and of the output file are left out.\<close>

record encode_request =
  frames_pattern :: string
  framerate :: int
  target_size :: "int \<times> int"
  vcodec :: string
  acodec :: string
  audio_bitrate :: string
  pix_fmt :: string
  out_r :: int
  out_t :: real

text \<open>What one pass through the loop body does to the job, as far as the job can observe
  it. The drawing and saving calls are library code: they complete, or one of them raises.
  An exception is placed by what the body had done before it: nothing (the frame file does
  not exist), the file written but the counter not yet incremented (the exception comes out
  of the end of \<^verbatim>\<open>savefig\<close> or out of \<^verbatim>\<open>plt.close()\<close>), or the counter incremented
  (the exception comes out of \<^verbatim>\<open>progress.emit\<close>).\<close>

datatype frame_outcome = FrameDone | RaisesBeforeFile | RaisesAfterFile | RaisesAfterCount

text \<open>
  What one call of \<^verbatim>\<open>compile_video\<close> meets when it runs ffmpeg: \<^verbatim>\<open>ffmpeg.run\<close> returns;
  or it raises \<^verbatim>\<open>ffmpeg.Error\<close>, which the function catches and logs; or an exception that
  the function does not catch leaves it: one that \<^verbatim>\<open>ffmpeg.run\<close> raises and that is not an
  \<^verbatim>\<open>ffmpeg.Error\<close> (\<open>FileNotFoundError\<close> when there is no ffmpeg executable), or one raised
  while the \<^verbatim>\<open>ffmpeg.Error\<close> is handled (decoding its \<open>stderr\<close>).
\<close>

datatype encoder_outcome = EncoderReturns | EncoderFails | EncoderRaises py_exception

text \<open>
  The environment of one job:
  \<^item> \<open>librosa_load\<close>: the decoded file, as the two channels \<open>y[0]\<close>, \<open>y[1]\<close> and the
    sample rate, or the exception with which lines 75 to 77 fail;
  \<^item> \<open>draw_frame\<close>: the outcome of drawing and saving frame \<open>i\<close> from its scatter;
  \<^item> \<open>ffmpeg_run\<close>: the outcome of running ffmpeg, given how many times the job has run
    it before, the request and the files of the frame directory.
  The file operations of the clean-up are taken to succeed.
\<close>

record environment =
  librosa_load :: "py_exception + (npfloat list \<times> npfloat list \<times> int)"
  draw_frame :: "nat \<Rightarrow> polar_scatter \<Rightarrow> frame_outcome"
  ffmpeg_run :: "nat \<Rightarrow> encode_request \<Rightarrow> string set \<Rightarrow> encoder_outcome"

text \<open>The state of a job: the counter, what it has emitted and logged, the file names
  in the frame directory, whether the input audio file exists, and the invocations of
  ffmpeg, each with the files of the frame directory at that moment.\<close>

record job_state =
  num_frames_generated :: nat
  signals :: "signal list"
  error_log :: "log_entry list"
  temp_files :: "string set"
  input_exists :: bool
  ffmpeg_invocations :: "(encode_request \<times> string set) list"

definition new_job :: "string set \<Rightarrow> bool \<Rightarrow> job_state" where
  "new_job files present =
     \<lparr>num_frames_generated = 0, signals = [], error_log = [], temp_files = files,
      input_exists = present, ffmpeg_invocations = []\<rparr>"

definition msg_processed :: "worker \<Rightarrow> nat \<Rightarrow> string" where
  "msg_processed w n = ''Processed '' @ audio_file w @ '' with '' @ py_str_nat n @ '' frames.''"

definition msg_error_processing :: "worker \<Rightarrow> string" where
  "msg_error_processing w = ''Error processing '' @ audio_file w @ ''. Check log.''"

definition msg_compilation_failed :: "worker \<Rightarrow> string" where
  "msg_compilation_failed w = ''Video compilation failed for '' @ audio_file w @ ''. Check log.''"

definition msg_no_frames :: "worker \<Rightarrow> string" where
  "msg_no_frames w = ''No frames generated for '' @ audio_file w @ ''.''"

section \<open>Video compilation\<close>

text \<open>
  \<^verbatim>\<open>compile_video\<close>: builds the request, with \<^verbatim>\<open>duration = num_frames_generated / self.fps\<close>
  (a \<open>ZeroDivisionError\<close> for \<open>fps = 0\<close>, which is not an \<^verbatim>\<open>ffmpeg.Error\<close> and leaves the
  function), and runs ffmpeg. It returns \<open>True\<close>, or logs and returns \<open>False\<close> when
  \<^verbatim>\<open>ffmpeg.run\<close> raises \<^verbatim>\<open>ffmpeg.Error\<close>; its only handler is \<^verbatim>\<open>except ffmpeg.Error\<close>, so any
  other exception leaves it. The result is the state and what the call gives: the returned
  value, or the exception that leaves the function.
\<close>

definition build_request :: "worker \<Rightarrow> nat \<Rightarrow> py_exception + encode_request" where
  "build_request w n =
     (if fps w = 0 then Inl ZeroDivisionError
      else Inr \<lparr>frames_pattern = ''frame_%05d.png'', framerate = fps w,
                target_size = resolution w, vcodec = ''libx264'', acodec = ''libmp3lame'',
                audio_bitrate = ''192k'', pix_fmt = ''yuv420p'', out_r = fps w,
                out_t = real n / real_of_int (fps w)\<rparr>)"

definition compile_video ::
  "worker \<Rightarrow> environment \<Rightarrow> nat \<Rightarrow> job_state \<Rightarrow> job_state \<times> (py_exception + bool)" where
  "compile_video w env n st =
     (case build_request w n of
        Inl e \<Rightarrow> (st, Inl e)
      | Inr req \<Rightarrow>
          (let st' = st\<lparr>ffmpeg_invocations := ffmpeg_invocations st @ [(req, temp_files st)]\<rparr>
           in case ffmpeg_run env (length (ffmpeg_invocations st)) req (temp_files st) of
                EncoderReturns \<Rightarrow> (st', Inr True)
              | EncoderFails \<Rightarrow>
                  (st'\<lparr>error_log := error_log st' @ [VideoCompilationFailed]\<rparr>, Inr False)
              | EncoderRaises e \<Rightarrow> (st', Inl e)))"

text \<open>
  The same four lines follow the loop and sit in the exception handler:
  \<^verbatim>\<open>if num_frames_generated > 0 and os.path.exists(audio_path):\<close>
  \<^verbatim>\<open>    success = self.compile_video(audio_path, output_video, num_frames_generated)\<close>
  \<^verbatim>\<open>    if not success:\<close>
  \<^verbatim>\<open>        self.error.emit(f"Video compilation failed for {self.audio_file}. Check log.")\<close>
  The result is the state and the exception that leaves these lines, if any.
\<close>

definition attempt_compile ::
  "worker \<Rightarrow> environment \<Rightarrow> job_state \<Rightarrow> job_state \<times> py_exception option" where
  "attempt_compile w env st =
     (if 0 < num_frames_generated st \<and> input_exists st then
        (case compile_video w env (num_frames_generated st) st of
           (st', Inl e) \<Rightarrow> (st', Some e)
         | (st', Inr success) \<Rightarrow>
             (if success then (st', None)
              else (st'\<lparr>signals := signals st' @ [Error (msg_compilation_failed w)]\<rparr>, None)))
      else (st, None))"

section \<open>The rendering loop\<close>

text \<open>The outcome of the body for frame \<open>i\<close>: the chunks are cut, projected and drawn.\<close>

definition frame_body ::
  "worker \<Rightarrow> environment \<Rightarrow> npfloat list \<Rightarrow> npfloat list \<Rightarrow> int \<Rightarrow> nat \<Rightarrow> frame_outcome" where
  "frame_body w env left_channel right_channel frame_step i =
     (let left_chunk = chunk_at left_channel (length left_channel) frame_step i;
          right_chunk = chunk_at right_channel (length left_channel) frame_step i
      in draw_frame env i (polar_projection (amplitude_scale w) left_chunk right_chunk))"

text \<open>
  \<^verbatim>\<open>for i in range(num_frames):\<close> over the indices still to visit. A frame that is done
  has its file in the frame directory, the counter incremented and a progress signal
  emitted. The result is the state and the exception that interrupted the loop, if any.
\<close>

fun render_frames ::
  "worker \<Rightarrow> environment \<Rightarrow> npfloat list \<Rightarrow> npfloat list \<Rightarrow> int \<Rightarrow> int \<Rightarrow> nat list
     \<Rightarrow> job_state \<Rightarrow> job_state \<times> py_exception option" where
  "render_frames w env left_channel right_channel frame_step num_frames [] st = (st, None)"
| "render_frames w env left_channel right_channel frame_step num_frames (i # rest) st =
     (case frame_body w env left_channel right_channel frame_step i of
        RaisesBeforeFile \<Rightarrow> (st, Some OtherException)
      | RaisesAfterFile \<Rightarrow>
          (st\<lparr>temp_files := insert (frame_file i) (temp_files st)\<rparr>, Some OtherException)
      | RaisesAfterCount \<Rightarrow>
          (st\<lparr>temp_files := insert (frame_file i) (temp_files st),
              num_frames_generated := num_frames_generated st + 1\<rparr>, Some OtherException)
      | FrameDone \<Rightarrow>
          render_frames w env left_channel right_channel frame_step num_frames rest
            (st\<lparr>temp_files := insert (frame_file i) (temp_files st),
                num_frames_generated := num_frames_generated st + 1,
                signals := signals st @ [Progress (i + 1) num_frames]\<rparr>))"

section \<open>The job\<close>

text \<open>The body of the \<^verbatim>\<open>try\<close> statement of \<^verbatim>\<open>Worker.run\<close>: load (which raises when the
  file does not exist), normalize both channels, lay out the frames, render them, and
  compile the video. The result is the state and the exception that leaves the body, if
  any; an exception that leaves \<^verbatim>\<open>compile_video\<close> here leaves the body too.\<close>

definition try_block ::
  "worker \<Rightarrow> environment \<Rightarrow> job_state \<Rightarrow> job_state \<times> py_exception option" where
  "try_block w env st =
     (if \<not> input_exists st then (st, Some FileNotFoundError)
      else case librosa_load env of
        Inl e \<Rightarrow> (st, Some e)
      | Inr (y0, y1, sr) \<Rightarrow>
          (case normalize_channel y0 of
             Inl e \<Rightarrow> (st, Some e)
           | Inr left_channel \<Rightarrow>
               (case normalize_channel y1 of
                  Inl e \<Rightarrow> (st, Some e)
                | Inr right_channel \<Rightarrow>
                    (case frame_layout sr (fps w) (length left_channel) of
                       Inl e \<Rightarrow> (st, Some e)
                     | Inr (frame_step, num_frames) \<Rightarrow>
                         (case render_frames w env left_channel right_channel frame_step
                                 num_frames [0 ..< nat num_frames] st of
                            (st', Some e) \<Rightarrow> (st', Some e)
                          | (st', None) \<Rightarrow> attempt_compile w env st')))))"

text \<open>
  The handler \<^verbatim>\<open>except Exception as e\<close>: log, emit the error signal, and attempt the
  compilation of the frames generated so far. No \<^verbatim>\<open>try\<close> stands around this call of
  \<^verbatim>\<open>compile_video\<close>: an exception that leaves it leaves the handler.
\<close>

definition except_handler ::
  "worker \<Rightarrow> environment \<Rightarrow> py_exception \<Rightarrow> job_state \<Rightarrow> job_state \<times> py_exception option" where
  "except_handler w env e st =
     attempt_compile w env
       (st\<lparr>error_log := error_log st @ [FrameGenerationFailed e],
           signals := signals st @ [Error (msg_error_processing w)]\<rparr>)"

text \<open>
  The clean-up removes every file of the frame directory whose name ends in \<open>.png\<close>, and
  the input audio file if it exists.
\<close>

definition cleanup :: "job_state \<Rightarrow> job_state" where
  "cleanup st =
     st\<lparr>temp_files := {f \<in> temp_files st. \<not> endswith f ''.png''},
        input_exists := False\<rparr>"

definition final_report :: "worker \<Rightarrow> job_state \<Rightarrow> job_state" where
  "final_report w st =
     (if 0 < num_frames_generated st
      then st\<lparr>signals := signals st @ [Finished (msg_processed w (num_frames_generated st))]\<rparr>
      else st\<lparr>signals := signals st @ [Error (msg_no_frames w)]\<rparr>)"

text \<open>
  \<^verbatim>\<open>Worker.run\<close>. An exception that leaves the handler leaves \<^verbatim>\<open>run\<close>: the clean-up
  (under the comment \<^verbatim>\<open># Always clean up temp frames\<close>) and the final signal are then not
  reached. The result is the final state and that exception, if any.
\<close>

definition run :: "worker \<Rightarrow> environment \<Rightarrow> job_state \<Rightarrow> job_state \<times> py_exception option" where
  "run w env st0 =
     (let st = st0\<lparr>num_frames_generated := 0\<rparr>;
          (st1, raised) = try_block w env st;
          (st2, escaped) = (case raised of None \<Rightarrow> (st1, None) | Some e \<Rightarrow> except_handler w env e st1)
      in case escaped of
           Some e \<Rightarrow> (st2, Some e)
         | None \<Rightarrow> (final_report w (cleanup st2), None))"

section \<open>The projection as the specification words it\<close>

text \<open>The window amplitude in the words of the specification: the mean over the window of
  \<open>|l| + |r|\<close>, times the amplitude scale. It is compared below with the value that
  \<open>polar_projection\<close> computes.\<close>

definition spec_window_amplitude :: "real \<Rightarrow> real list \<Rightarrow> real list \<Rightarrow> real" where
  "spec_window_amplitude scale ls rs =
     (\<Sum>i<length ls. \<bar>ls ! i\<bar> + \<bar>rs ! i\<bar>) / real (length ls) * scale"

section \<open>A small job for concrete runs\<close>

text \<open>A worker at 30 frames per second and four stereo samples at a sample rate of 60: the
  frame step is 2 and there are 2 frames. The environment takes the outcome of each frame
  and of the encoder as parameters.\<close>

definition demo_worker :: worker where
  "demo_worker = \<lparr>audio_file = ''song.mp3'', fps = 30, resolution = (1280, 720),
      color = (0, 255, 0), amplitude_scale = 2, point_size = 10\<rparr>"

definition demo_audio :: "npfloat list \<times> npfloat list \<times> int" where
  "demo_audio = ([Fin 1, Fin (- 1), Fin (1 / 2), Fin 0], [Fin 0, Fin 1, Fin (1 / 2), Fin (- 1)], 60)"

definition demo_env :: "(nat \<Rightarrow> frame_outcome) \<Rightarrow> (nat \<Rightarrow> encoder_outcome) \<Rightarrow> environment" where
  "demo_env outcome encoder =
     \<lparr>librosa_load = Inr demo_audio, draw_frame = (\<lambda>i scatter. outcome i),
      ffmpeg_run = (\<lambda>n req files. encoder n)\<rparr>"


section \<open>What holds of the state from the loop to the end of the job\<close>

text \<open>The signals before the closing one are progress signals and the two failure signals;
  every recorded invocation of ffmpeg carries the request for the counted frames and saw the
  frame directory as it is; the counted frame files exist; frames are only counted when the
  input existed and the frame rate is not zero; and ffmpeg is only invoked with frames.\<close>

definition job_invariant :: "worker \<Rightarrow> job_state \<Rightarrow> bool" where
  "job_invariant w st =
     ((\<forall>s\<in>set (signals st). (\<exists>a c. s = Progress a c) \<or> s = Error (msg_error_processing w)
            \<or> s = Error (msg_compilation_failed w))
    \<and> (\<forall>inv\<in>set (ffmpeg_invocations st).
          build_request w (num_frames_generated st) = Inr (fst inv) \<and> snd inv = temp_files st)
    \<and> frame_file ` {..<num_frames_generated st} \<subseteq> temp_files st
    \<and> (0 < num_frames_generated st \<longrightarrow> fps w \<noteq> 0 \<and> input_exists st)
    \<and> (num_frames_generated st = 0 \<longrightarrow> ffmpeg_invocations st = []))"


section \<open>Arithmetic on finite samples\<close>

lemma finite_result_finite: "is_finite (finite_result negative x)"
  by (simp add: finite_result_def signed_zero_def)

lemma finite_result_real: "real_of (finite_result negative x) = x"
  by (simp add: finite_result_def signed_zero_def)

lemma finite_result_positive: "finite_result False x = Fin x"
  by (simp add: finite_result_def signed_zero_def)

lemma finite_result_nonzero: "x \<noteq> 0 \<Longrightarrow> finite_result negative x = Fin x"
  by (simp add: finite_result_def)

lemma np_abs_finite: "is_finite a \<Longrightarrow> np_abs a = Fin \<bar>real_of a\<bar>"
  by (cases a) simp_all

lemma np_mul_Fin: "np_mul (Fin x) (Fin y) = finite_result ((x < 0) \<noteq> (y < 0)) (x * y)"
  by (simp add: np_mul_def)

lemma np_mul_Fin_nonneg: "0 \<le> x \<Longrightarrow> 0 \<le> y \<Longrightarrow> np_mul (Fin x) (Fin y) = Fin (x * y)"
  by (simp add: np_mul_Fin finite_result_positive)

lemma np_square_finite: "is_finite a \<Longrightarrow> np_square a = Fin (real_of a * real_of a)"
  by (cases a) (simp_all add: np_square_def np_mul_def finite_result_positive)

lemma np_add_one: "np_add (Fin 1) (finite_result negative x) = Fin (1 + x)"
  by (simp add: finite_result_def signed_zero_def)

lemma np_divide_Fin_pos: "0 < y \<Longrightarrow> np_divide (Fin x) (Fin y) = Fin (x / y)"
  by (simp add: np_divide_def finite_result_def signed_zero_def)

lemma np_divide_zero_zero: "np_divide (Fin 0) (Fin 0) = NaN"
  by (simp add: np_divide_def)

lemma np_maximum_Fin: "np_maximum (Fin x) (Fin y) = Fin (max x y)"
  by (simp add: np_maximum_def max_def)

lemma np_arctan2_Fin: "np_arctan2 (Fin y) (Fin x) = Fin (arctan2 y x)"
  by (simp add: np_arctan2_def with_sign_def arctan2_def)

lemma foldl_np_add_Fin: "foldl np_add (Fin a) (map Fin xs) = Fin (a + sum_list xs)"
  by (induction xs arbitrary: a) (simp_all add: add.assoc)

lemma np_sum_Fin: "np_sum (map Fin xs) = Fin (sum_list xs)"
  by (cases xs) (simp_all add: np_sum_def foldl_np_add_Fin)

lemma np_mean_Fin: "xs \<noteq> [] \<Longrightarrow> np_mean (map Fin xs) = Fin (sum_list xs / real (length xs))"
  by (simp add: np_mean_def np_sum_Fin np_divide_Fin_pos)

lemma np_mean_Nil: "np_mean [] = NaN"
  by (simp add: np_mean_def np_sum_def np_divide_def)

lemma foldl_np_maximum_Fin: "foldl np_maximum (Fin a) (map Fin xs) = Fin (foldl max a xs)"
  by (induction xs arbitrary: a) (simp_all add: np_maximum_Fin)

lemma foldl_max_Max: "foldl max (a::real) xs = Max (set (a # xs))"
proof (induction xs arbitrary: a)
  case Nil
  then show ?case by simp
next
  case (Cons x xs)
  have "Max (insert (max a x) (set xs)) = Max (insert a (insert x (set xs)))"
    by (metis List.set_insert Max_insert Max_singleton insert_not_empty
    list.set_finite max.assoc)
  then show ?case using Cons by simp
qed

lemma np_max_Fin: "xs \<noteq> [] \<Longrightarrow> np_max (map Fin xs) = Inr (Fin (Max (set xs)))"
  by (cases xs) (simp_all add: np_max_def foldl_np_maximum_Fin foldl_max_Max)

lemma sum_list_map2_nth:
  "length ys = length xs \<Longrightarrow> sum_list (map2 f xs ys) = (\<Sum>i<length xs. f (xs ! i) (ys ! i))"
proof -
  assume l: "length ys = length xs"
  have "sum_list (map2 f xs ys) = (\<Sum>i<length (map2 f xs ys). map2 f xs ys ! i)"
    by (simp add: sum_list_sum_nth atLeast0LessThan)
  also have "\<dots> = (\<Sum>i<length xs. f (xs ! i) (ys ! i))"
    using l by simp
  finally show ?thesis .
qed

text \<open>The absolute values of a window of finite samples, summed pairwise.\<close>

lemma abs_sum_finite:
  assumes "length rs = length ls" "\<forall>x\<in>set ls. is_finite x" "\<forall>x\<in>set rs. is_finite x"
  shows "map2 np_add (map np_abs ls) (map np_abs rs)
       = map Fin (map2 (\<lambda>l r. \<bar>real_of l\<bar> + \<bar>real_of r\<bar>) ls rs)"
  using assms by (induction ls rs rule: list_induct2') (simp_all add: np_abs_finite)

lemma modulus_finite:
  assumes "length rs = length ls" "\<forall>x\<in>set ls. is_finite x" "\<forall>x\<in>set rs. is_finite x"
  shows "map np_sqrt (map2 np_add (map np_square ls) (map np_square rs))
       = map Fin (map2 (\<lambda>l r. sqrt (real_of l * real_of l + real_of r * real_of r)) ls rs)"
  using assms by (induction ls rs rule: list_induct2') (simp_all add: np_square_finite)

lemma window_mean_finite:
  assumes "length rs = length ls" "ls \<noteq> []" "\<forall>x\<in>set ls. is_finite x" "\<forall>x\<in>set rs. is_finite x"
  shows "np_mean (map2 np_add (map np_abs ls) (map np_abs rs))
       = Fin (spec_window_amplitude 1 (map real_of ls) (map real_of rs))"
proof -
  let ?zs = "map2 (\<lambda>l r. \<bar>real_of l\<bar> + \<bar>real_of r\<bar>) ls rs"
  have ne: "?zs \<noteq> []" using assms(1,2) by (cases ls; cases rs) simp_all
  have len: "length ?zs = length ls" using assms(1) by simp
  have "sum_list ?zs = (\<Sum>i<length ls. \<bar>real_of (ls ! i)\<bar> + \<bar>real_of (rs ! i)\<bar>)"
    using sum_list_map2_nth[of rs ls "\<lambda>l r. \<bar>real_of l\<bar> + \<bar>real_of r\<bar>"] assms(1) by simp
  also have "\<dots> = (\<Sum>i<length ls. \<bar>map real_of ls ! i\<bar> + \<bar>map real_of rs ! i\<bar>)"
    using assms(1) by simp
  finally have s: "sum_list ?zs = (\<Sum>i<length ls. \<bar>map real_of ls ! i\<bar> + \<bar>map real_of rs ! i\<bar>)" .
  show ?thesis
    unfolding abs_sum_finite[OF assms(1,3,4)] np_mean_Fin[OF ne] len s
    by (simp add: spec_window_amplitude_def)
qed

lemma spec_window_amplitude_scale:
  "spec_window_amplitude s ls rs = spec_window_amplitude 1 ls rs * s"
  by (simp add: spec_window_amplitude_def)

lemma spec_window_amplitude_nonneg: "0 \<le> spec_window_amplitude 1 ls rs"
proof -
  have "0 \<le> (\<Sum>i<length ls. \<bar>ls ! i\<bar> + \<bar>rs ! i\<bar>)"
    by (rule sum_nonneg) simp
  then show ?thesis by (simp add: spec_window_amplitude_def)
qed

text \<open>The projection of a non-empty window of finite samples. A zero amplitude and a zero
  radius carry a sign, which is negative only for a negative amplitude scale.\<close>

lemma projection_finite:
  assumes "length rs = length ls" "ls \<noteq> []" "\<forall>x\<in>set ls. is_finite x" "\<forall>x\<in>set rs. is_finite x"
  shows "polar_projection s ls rs =
    \<lparr>amplitude = finite_result (s < 0) (spec_window_amplitude s (map real_of ls) (map real_of rs)),
     theta = map2 np_arctan2 rs ls,
     radius = map2 (\<lambda>l r. finite_result (1 + spec_window_amplitude s (map real_of ls) (map real_of rs) < 0)
                 (sqrt (real_of l * real_of l + real_of r * real_of r)
                    * (1 + spec_window_amplitude s (map real_of ls) (map real_of rs)))) ls rs\<rparr>"
proof -
  let ?M = "spec_window_amplitude 1 (map real_of ls) (map real_of rs)"
  let ?A = "spec_window_amplitude s (map real_of ls) (map real_of rs)"
  have M: "\<not> ?M < 0" using spec_window_amplitude_nonneg[of "map real_of ls" "map real_of rs"] by simp
  have amp: "np_mul (np_mean (map2 np_add (map np_abs ls) (map np_abs rs))) (Fin s)
      = finite_result (s < 0) ?A"
    unfolding window_mean_finite[OF assms] np_mul_Fin spec_window_amplitude_scale[of s]
    using M by simp
  have rad: "map (\<lambda>v. np_mul v (Fin c)) (map Fin (map2 (\<lambda>l r. sqrt (real_of l * real_of l + real_of r * real_of r)) ls rs))
     = map2 (\<lambda>l r. finite_result (c < 0) (sqrt (real_of l * real_of l + real_of r * real_of r) * c)) ls rs" for c
    using assms(1)
  proof (induction ls rs rule: list_induct2')
    case (4 l ls r rs)
    have "\<not> sqrt (real_of l * real_of l + real_of r * real_of r) < 0"
      by (simp add: not_less)
    then show ?case using 4 by (simp add: np_mul_Fin)
  qed simp_all
  show ?thesis
    unfolding polar_projection_def Let_def amp modulus_finite[OF assms(1,3,4)] np_add_one rad
    by simp
qed

lemma map2_np_arctan2_Fin: "map2 np_arctan2 (map Fin ys) (map Fin xs) = map Fin (map2 arctan2 ys xs)"
  by (induction ys arbitrary: xs) (simp, case_tac xs, simp_all add: np_arctan2_Fin)

lemma map_real_of_Fin: "map real_of (map Fin xs) = xs"
  by (induction xs) simp_all

lemma projection_Fin:
  assumes "length rs = length ls" "ls \<noteq> []"
  shows "polar_projection s (map Fin ls) (map Fin rs) =
    \<lparr>amplitude = finite_result (s < 0) (spec_window_amplitude s ls rs),
     theta = map Fin (map2 arctan2 rs ls),
     radius = map2 (\<lambda>l r. finite_result (1 + spec_window_amplitude s ls rs < 0)
                 (sqrt (l * l + r * r) * (1 + spec_window_amplitude s ls rs))) ls rs\<rparr>"
proof -
  have z: "map2 (\<lambda>l r. f (real_of l) (real_of r)) (map Fin ls) (map Fin rs) = map2 f ls rs" for f :: "real \<Rightarrow> real \<Rightarrow> npfloat"
    using assms(1) by (induction ls rs rule: list_induct2') simp_all
  have "polar_projection s (map Fin ls) (map Fin rs) =
    \<lparr>amplitude = finite_result (s < 0) (spec_window_amplitude s (map real_of (map Fin ls)) (map real_of (map Fin rs))),
     theta = map2 np_arctan2 (map Fin rs) (map Fin ls),
     radius = map2 (\<lambda>l r. finite_result (1 + spec_window_amplitude s (map real_of (map Fin ls)) (map real_of (map Fin rs)) < 0)
                 (sqrt (real_of l * real_of l + real_of r * real_of r)
                    * (1 + spec_window_amplitude s (map real_of (map Fin ls)) (map real_of (map Fin rs))))) (map Fin ls) (map Fin rs)\<rparr>"
    by (rule projection_finite) (use assms in simp_all)
  then show ?thesis
    unfolding map_real_of_Fin map2_np_arctan2_Fin
    using z[of "\<lambda>l r. finite_result (1 + spec_window_amplitude s ls rs < 0)
                 (sqrt (l * l + r * r) * (1 + spec_window_amplitude s ls rs))"] by simp
qed


section \<open>Angles and the projection of a window\<close>



text \<open>The definition of \<open>arctan2\<close> is the angle of polar coordinates: with the modulus
  \<open>sqrt (x * x + y * y)\<close> it gives back the point.\<close>

lemma sqrt_sum_squares_pos:
  assumes "0 < (x::real)"
  shows "sqrt (x * x + y * y) = x * sqrt (1 + (y / x)\<^sup>2)"
proof -
  have "x * x + y * y = x\<^sup>2 * (1 + (y / x)\<^sup>2)"
    using assms by (simp add: power2_eq_square field_simps)
  then have "sqrt (x * x + y * y) = sqrt (x\<^sup>2) * sqrt (1 + (y / x)\<^sup>2)"
    by (simp add: real_sqrt_mult)
  then show ?thesis using assms by simp
qed

lemma sqrt_sum_squares_neg:
  assumes "(x::real) < 0"
  shows "sqrt (x * x + y * y) = - x * sqrt (1 + (y / x)\<^sup>2)"
proof -
  have "x * x + y * y = x\<^sup>2 * (1 + (y / x)\<^sup>2)"
    using assms by (simp add: power2_eq_square field_simps)
  then have "sqrt (x * x + y * y) = sqrt (x\<^sup>2) * sqrt (1 + (y / x)\<^sup>2)"
    by (simp add: real_sqrt_mult)
  then show ?thesis using assms by simp
qed

lemma arctan2_polar:
  "sqrt (x * x + y * y) * cos (arctan2 y x) = x \<and> sqrt (x * x + y * y) * sin (arctan2 y x) = y"
proof -
  have pos: "0 < sqrt (1 + (y / x)\<^sup>2)"
    by (simp add: add_pos_nonneg)
  consider "0 < x" | "x < 0" "0 \<le> y" | "x < 0" "y < 0" | "x = 0" "0 < y" | "x = 0" "y < 0" | "x = 0" "y = 0"
    by linarith
  then show ?thesis
  proof cases
    case 1
    then have a: "arctan2 y x = arctan (y / x)" by (simp add: arctan2_def)
    show ?thesis unfolding a cos_arctan sin_arctan sqrt_sum_squares_pos[OF 1]
      using pos 1 by simp
  next
    case 2
    then have a: "arctan2 y x = arctan (y / x) + pi" by (simp add: arctan2_def)
    show ?thesis unfolding a sqrt_sum_squares_neg[OF 2(1)]
      using pos 2 by (simp add: cos_arctan sin_arctan)
  next
    case 3
    then have a: "arctan2 y x = arctan (y / x) - pi" by (simp add: arctan2_def)
    show ?thesis unfolding a sqrt_sum_squares_neg[OF 3(1)]
      using pos 3 by (simp add: cos_arctan sin_arctan cos_diff sin_diff)
  next
    case 4
    then show ?thesis by (simp add: arctan2_def)
  next
    case 5
    then show ?thesis by (simp add: arctan2_def)
  next
    case 6
    then show ?thesis by (simp add: arctan2_def)
  qed
qed

text \<open>An empty window raises nothing: its amplitude is \<open>nan\<close> and its scatter is empty. A
  window of \<open>nan\<close> samples, as normalization makes them from a silent channel, projects to
  \<open>nan\<close>.\<close>

lemma polar_projection_empty:
  "polar_projection s [] [] = \<lparr>amplitude = NaN, theta = [], radius = []\<rparr>"
  by (simp add: polar_projection_def np_mean_Nil np_mul_def)

lemma foldl_np_add_NaN: "foldl np_add NaN xs = NaN"
  by (induction xs) simp_all

lemma nan_window_projects_to_nan:
  "polar_projection s (replicate n NaN) (replicate n NaN)
     = \<lparr>amplitude = NaN, theta = replicate n NaN, radius = replicate n NaN\<rparr>"
proof -
  have z: "zip (replicate n NaN) (replicate n NaN) = replicate n (NaN, NaN)"
    by (induction n) simp_all
  have m: "np_mean (replicate n NaN) = NaN"
    by (cases n) (simp_all add: np_mean_def np_sum_def np_divide_def foldl_np_add_NaN)
  show ?thesis
    unfolding polar_projection_def Let_def
    by (simp add: z m np_square_def np_mul_def np_arctan2_def)
qed

lemma silent_window_projects_to_nan:
  "polar_projection s [NaN, NaN] [NaN, NaN] = \<lparr>amplitude = NaN, theta = [NaN, NaN], radius = [NaN, NaN]\<rparr>"
  using nan_window_projects_to_nan[of s 2] by (simp add: numeral_2_eq_2)

text \<open>
  Claim C1. On a non-empty window of finite samples, \<open>polar_projection\<close> computes the
  window amplitude of the specification, one angle and one radius per sample pair, the angle
  \<open>arctan2 r l\<close> and the radius \<open>sqrt (l * l + r * r) * (1 + window_amplitude)\<close>; and with
  amplitude scale \<open>1\<close> on \<open>n > 0\<close> pairs \<open>(0.5, 0.5)\<close> the amplitude is \<open>1\<close> and every
  radius is \<open>sqrt 0.5 * 2\<close>. For a window with no negative zero and an amplitude scale
  \<open>\<ge> 0\<close> the computed values are these numbers; for every amplitude scale they are finite
  and equal to them as numbers (a zero amplitude or radius is the negative zero only under a
  negative scale), and the angles are these numbers. On a window that holds negative zeros,
  amplitude and radius are the same formulas of the samples' values, and the angle is the
  arc tangent of the two samples as they are, signs of zero included.
\<close>

theorem polar_projection_formulas:
  "(length rs = length ls \<and> ls \<noteq> [] \<longrightarrow>
      length (theta (polar_projection s (map Fin ls) (map Fin rs))) = length ls
    \<and> length (radius (polar_projection s (map Fin ls) (map Fin rs))) = length ls
    \<and> is_finite (amplitude (polar_projection s (map Fin ls) (map Fin rs)))
    \<and> real_of (amplitude (polar_projection s (map Fin ls) (map Fin rs))) = spec_window_amplitude s ls rs
    \<and> (\<forall>i<length ls.
          theta (polar_projection s (map Fin ls) (map Fin rs)) ! i = Fin (arctan2 (rs ! i) (ls ! i))
        \<and> is_finite (radius (polar_projection s (map Fin ls) (map Fin rs)) ! i)
        \<and> real_of (radius (polar_projection s (map Fin ls) (map Fin rs)) ! i)
            = sqrt (ls ! i * ls ! i + rs ! i * rs ! i) * (1 + spec_window_amplitude s ls rs))
    \<and> (0 \<le> s \<longrightarrow>
          amplitude (polar_projection s (map Fin ls) (map Fin rs)) = Fin (spec_window_amplitude s ls rs)
        \<and> (\<forall>i<length ls.
              radius (polar_projection s (map Fin ls) (map Fin rs)) ! i
                = Fin (sqrt (ls ! i * ls ! i + rs ! i * rs ! i) * (1 + spec_window_amplitude s ls rs)))))
   \<and> (length right_chunk = length left_chunk \<and> left_chunk \<noteq> []
        \<and> (\<forall>x\<in>set left_chunk. is_finite x) \<and> (\<forall>x\<in>set right_chunk. is_finite x) \<longrightarrow>
      length (theta (polar_projection s left_chunk right_chunk)) = length left_chunk
    \<and> length (radius (polar_projection s left_chunk right_chunk)) = length left_chunk
    \<and> is_finite (amplitude (polar_projection s left_chunk right_chunk))
    \<and> real_of (amplitude (polar_projection s left_chunk right_chunk))
        = spec_window_amplitude s (map real_of left_chunk) (map real_of right_chunk)
    \<and> (\<forall>i<length left_chunk.
          theta (polar_projection s left_chunk right_chunk) ! i
            = np_arctan2 (right_chunk ! i) (left_chunk ! i)
        \<and> is_finite (radius (polar_projection s left_chunk right_chunk) ! i)
        \<and> real_of (radius (polar_projection s left_chunk right_chunk) ! i)
            = sqrt (real_of (left_chunk ! i) * real_of (left_chunk ! i)
                    + real_of (right_chunk ! i) * real_of (right_chunk ! i))
              * (1 + spec_window_amplitude s (map real_of left_chunk) (map real_of right_chunk))))
   \<and> (0 < n \<longrightarrow>
      amplitude (polar_projection 1 (replicate n (Fin 0.5)) (replicate n (Fin 0.5))) = Fin 1
    \<and> length (radius (polar_projection 1 (replicate n (Fin 0.5)) (replicate n (Fin 0.5)))) = n
    \<and> (\<forall>i<n. radius (polar_projection 1 (replicate n (Fin 0.5)) (replicate n (Fin 0.5))) ! i
            = Fin (sqrt 0.5 * 2)))"
proof (intro conjI impI)
  assume a: "length rs = length ls \<and> ls \<noteq> []"
  let ?A = "spec_window_amplitude s ls rs"
  have p: "polar_projection s (map Fin ls) (map Fin rs) =
    \<lparr>amplitude = finite_result (s < 0) ?A,
     theta = map Fin (map2 arctan2 rs ls),
     radius = map2 (\<lambda>l r. finite_result (1 + ?A < 0) (sqrt (l * l + r * r) * (1 + ?A))) ls rs\<rparr>"
    using projection_Fin a by blast
  show "length (theta (polar_projection s (map Fin ls) (map Fin rs))) = length ls"
    using a by (simp add: p)
  show "length (radius (polar_projection s (map Fin ls) (map Fin rs))) = length ls"
    using a by (simp add: p)
  show "is_finite (amplitude (polar_projection s (map Fin ls) (map Fin rs)))"
    by (simp add: p finite_result_finite)
  show "real_of (amplitude (polar_projection s (map Fin ls) (map Fin rs))) = ?A"
    by (simp add: p finite_result_real)
  show "\<forall>i<length ls.
          theta (polar_projection s (map Fin ls) (map Fin rs)) ! i = Fin (arctan2 (rs ! i) (ls ! i))
        \<and> is_finite (radius (polar_projection s (map Fin ls) (map Fin rs)) ! i)
        \<and> real_of (radius (polar_projection s (map Fin ls) (map Fin rs)) ! i)
            = sqrt (ls ! i * ls ! i + rs ! i * rs ! i) * (1 + ?A)"
    using a by (simp add: p finite_result_finite finite_result_real)
  {
    assume s: "0 \<le> s"
    have "0 \<le> spec_window_amplitude 1 ls rs * s"
      using spec_window_amplitude_nonneg[of ls rs] s by simp
    then have A: "0 \<le> ?A" using spec_window_amplitude_scale[of s ls rs] by simp
    then have f: "\<not> 1 + ?A < 0" "\<not> s < 0" using s by simp_all
    show "amplitude (polar_projection s (map Fin ls) (map Fin rs)) = Fin ?A"
      using f by (simp add: p finite_result_positive)
    show "\<forall>i<length ls.
              radius (polar_projection s (map Fin ls) (map Fin rs)) ! i
                = Fin (sqrt (ls ! i * ls ! i + rs ! i * rs ! i) * (1 + ?A))"
      using a f by (simp add: p finite_result_positive)
  }
next
  assume a: "length right_chunk = length left_chunk \<and> left_chunk \<noteq> []
        \<and> (\<forall>x\<in>set left_chunk. is_finite x) \<and> (\<forall>x\<in>set right_chunk. is_finite x)"
  let ?A = "spec_window_amplitude s (map real_of left_chunk) (map real_of right_chunk)"
  have p: "polar_projection s left_chunk right_chunk =
    \<lparr>amplitude = finite_result (s < 0) ?A,
     theta = map2 np_arctan2 right_chunk left_chunk,
     radius = map2 (\<lambda>l r. finite_result (1 + ?A < 0)
                 (sqrt (real_of l * real_of l + real_of r * real_of r) * (1 + ?A))) left_chunk right_chunk\<rparr>"
    by (rule projection_finite) (use a in simp_all)
  show "length (theta (polar_projection s left_chunk right_chunk)) = length left_chunk"
    using a by (simp add: p)
  show "length (radius (polar_projection s left_chunk right_chunk)) = length left_chunk"
    using a by (simp add: p)
  show "is_finite (amplitude (polar_projection s left_chunk right_chunk))"
    by (simp add: p finite_result_finite)
  show "real_of (amplitude (polar_projection s left_chunk right_chunk)) = ?A"
    by (simp add: p finite_result_real)
  show "\<forall>i<length left_chunk.
          theta (polar_projection s left_chunk right_chunk) ! i
            = np_arctan2 (right_chunk ! i) (left_chunk ! i)
        \<and> is_finite (radius (polar_projection s left_chunk right_chunk) ! i)
        \<and> real_of (radius (polar_projection s left_chunk right_chunk) ! i)
            = sqrt (real_of (left_chunk ! i) * real_of (left_chunk ! i)
                    + real_of (right_chunk ! i) * real_of (right_chunk ! i))
              * (1 + ?A)"
    using a by (simp add: p finite_result_finite finite_result_real)
next
  assume n: "0 < n"
  have r: "replicate n (Fin 0.5) = map Fin (replicate n (0.5::real))" by simp
  have ne: "replicate n (0.5::real) \<noteq> []" using n by simp
  have A: "spec_window_amplitude 1 (replicate n 0.5) (replicate n 0.5) = 1"
    using n by (simp add: spec_window_amplitude_def)
  have p: "polar_projection 1 (replicate n (Fin 0.5)) (replicate n (Fin 0.5)) =
    \<lparr>amplitude = Fin 1,
     theta = map Fin (map2 arctan2 (replicate n 0.5) (replicate n 0.5)),
     radius = map2 (\<lambda>l r. Fin (sqrt (l * l + r * r) * (1 + 1))) (replicate n 0.5) (replicate n 0.5)\<rparr>"
    unfolding r using projection_Fin[of "replicate n 0.5" "replicate n 0.5" 1] ne A
    by (simp add: finite_result_positive)
  show "amplitude (polar_projection 1 (replicate n (Fin 0.5)) (replicate n (Fin 0.5))) = Fin 1"
    unfolding p by simp
  show "length (radius (polar_projection 1 (replicate n (Fin 0.5)) (replicate n (Fin 0.5)))) = n"
    unfolding p by simp
  show "\<forall>i<n. radius (polar_projection 1 (replicate n (Fin 0.5)) (replicate n (Fin 0.5))) ! i
            = Fin (sqrt 0.5 * 2)"
    unfolding p by simp
qed

theorem polar_projection_formulas_witness:
  "length [1 / 2, 0 :: real] = length [1 / 2, - 1 :: real] \<and> [1 / 2, - 1 :: real] \<noteq> []
   \<and> (0::real) \<le> 2
   \<and> amplitude (polar_projection 2 (map Fin [1 / 2, - 1]) (map Fin [1 / 2, 0])) = Fin 2
   \<and> length (theta (polar_projection 2 (map Fin [1 / 2, - 1]) (map Fin [1 / 2, 0]))) = 2
   \<and> radius (polar_projection 2 (map Fin [1 / 2, - 1]) (map Fin [1 / 2, 0])) ! 1 = Fin 3
   \<and> theta (polar_projection 2 (map Fin [1 / 2, - 1]) (map Fin [1 / 2, 0])) ! 1 = Fin pi
   \<and> real_of (amplitude (polar_projection 2 [Fin (- 1), NegZero] [NegZero, Fin 1])) = 2
   \<and> real_of (radius (polar_projection 2 [Fin (- 1), NegZero] [NegZero, Fin 1]) ! 0) = 3
   \<and> theta (polar_projection 2 [Fin (- 1), NegZero] [NegZero, Fin 1]) ! 0 = Fin (- pi)
   \<and> (0::nat) < 3
   \<and> amplitude (polar_projection 1 (replicate 3 (Fin 0.5)) (replicate 3 (Fin 0.5))) = Fin 1
   \<and> radius (polar_projection 1 (replicate 3 (Fin 0.5)) (replicate 3 (Fin 0.5))) ! 2 = Fin (sqrt 0.5 * 2)"
  using polar_projection_formulas[of "[1 / 2, 0]" "[1 / 2, - 1]" 2 "[NegZero, Fin 1]" "[Fin (- 1), NegZero]" 3]
  by (simp add: spec_window_amplitude_def arctan2_def np_arctan2_def with_sign_def
        lessThan_Suc numeral_2_eq_2 numeral_3_eq_3)


section \<open>Normalization and the range of the projection\<close>

lemma normalize_channel_Nil: "normalize_channel [] = Inl ValueError"
  by (simp add: normalize_channel_def np_max_def)

lemma np_max_map_Fin:
  "xs \<noteq> [] \<Longrightarrow> np_max (map (\<lambda>x. Fin (f x)) xs) = Inr (Fin (Max (f ` set xs)))"
  using np_max_Fin[of "map f xs"] by (simp add: comp_def)

lemma map_np_abs_finite:
  "\<forall>x\<in>set xs. is_finite x \<Longrightarrow> map np_abs xs = map (\<lambda>x. Fin \<bar>real_of x\<bar>) xs"
  by (induction xs) (simp_all add: np_abs_finite)

lemma normalize_channel_finite:
  assumes "xs \<noteq> []" "\<forall>x\<in>set xs. is_finite x"
  shows "normalize_channel xs
      = Inr (map (\<lambda>v. np_divide v (Fin (Max ((\<lambda>x. \<bar>real_of x\<bar>) ` set xs)))) xs)"
proof -
  have "np_max (map np_abs xs) = Inr (Fin (Max ((\<lambda>x. \<bar>real_of x\<bar>) ` set xs)))"
    unfolding map_np_abs_finite[OF assms(2)] by (rule np_max_map_Fin[OF assms(1)])
  then show ?thesis
    unfolding normalize_channel_def by simp
qed

lemma normalize_channel_Fin:
  "xs \<noteq> [] \<Longrightarrow> normalize_channel (map Fin xs)
      = Inr (map (\<lambda>x. np_divide (Fin x) (Fin (Max (abs ` set xs)))) xs)"
proof -
  assume ne: "xs \<noteq> []"
  have "np_max (map np_abs (map Fin xs)) = Inr (Fin (Max (abs ` set xs)))"
    using np_max_map_Fin[OF ne, of abs] by (simp add: comp_def)
  then show ?thesis
    unfolding normalize_channel_def by (simp add: comp_def)
qed

lemma peak_pos:
  assumes "x \<in> set xs" "f x \<noteq> (0::real)"
  shows "0 < Max ((\<lambda>x. \<bar>f x\<bar>) ` set xs)"
proof -
  have "\<bar>f x\<bar> \<le> Max ((\<lambda>x. \<bar>f x\<bar>) ` set xs)" using assms(1) by simp
  moreover have "0 < \<bar>f x\<bar>" using assms(2) by simp
  ultimately show ?thesis by linarith
qed

lemma peak_normalized:
  assumes "x \<in> set xs" "x \<noteq> (0::real)"
  shows "Max (abs ` set (map (\<lambda>x. x / Max (abs ` set xs)) xs)) = 1"
proof -
  let ?m = "Max (abs ` set xs)"
  have m: "0 < ?m" using peak_pos[of x xs "\<lambda>x. x"] assms by simp
  have ne: "abs ` set xs \<noteq> {}" using assms(1) by auto
  have "?m \<in> abs ` set xs" using ne by (intro Max_in) simp_all
  then obtain z where z: "z \<in> set xs" "\<bar>z\<bar> = ?m" by auto
  show ?thesis
  proof (rule Max_eqI)
    show "finite (abs ` set (map (\<lambda>x. x / ?m) xs))" by simp
  next
    fix y assume "y \<in> abs ` set (map (\<lambda>x. x / ?m) xs)"
    then obtain w where w: "w \<in> set xs" "y = \<bar>w / ?m\<bar>" by auto
    have "\<bar>w\<bar> \<le> ?m" using w(1) by simp
    then show "y \<le> 1" using m w(2) by simp
  next
    have "\<bar>z / ?m\<bar> = 1" using z(2) m by simp
    then show "1 \<in> abs ` set (map (\<lambda>x. x / ?m) xs)"
      using z(1) by force
  qed
qed

text \<open>Normalization keeps finite samples finite when the channel has a non-zero sample, and
  makes \<open>nan\<close> of every sample of a channel of zeros, whatever their signs.\<close>

lemma np_divide_finite_pos:
  "is_finite v \<Longrightarrow> 0 < m \<Longrightarrow> np_divide v (Fin m) = finite_result (signbit v) (real_of v / m)"
  by (cases v) (simp_all add: np_divide_def)

lemma np_divide_zero_by_zero:
  "is_finite v \<Longrightarrow> real_of v = 0 \<Longrightarrow> np_divide v (Fin 0) = NaN"
  by (cases v) (simp_all add: np_divide_def)


lemma normalize_channel_silent:
  assumes "xs \<noteq> []" "\<forall>x\<in>set xs. is_finite x \<and> real_of x = 0"
  shows "normalize_channel xs = Inr (replicate (length xs) NaN)"
proof -
  have f: "\<forall>x\<in>set xs. is_finite x" using assms(2) by simp
  have "(\<lambda>x. \<bar>real_of x\<bar>) ` set xs = {0}" using assms by (cases xs) auto
  then have m: "Max ((\<lambda>x. \<bar>real_of x\<bar>) ` set xs) = 0" by simp
  have "map (\<lambda>v. np_divide v (Fin 0)) xs = replicate (length xs) NaN"
    using assms(2) by (induction xs) (simp_all add: np_divide_zero_by_zero)
  then show ?thesis using normalize_channel_finite[OF assms(1) f] m by simp
qed





lemma np_abs_finite_result: "np_abs (finite_result negative x) = Fin \<bar>x\<bar>"
  by (simp add: finite_result_def signed_zero_def)

lemma peak_normalized_values:
  assumes "x \<in> set xs" "f x \<noteq> (0::real)"
  shows "Max ((\<lambda>v. \<bar>f v / Max ((\<lambda>x. \<bar>f x\<bar>) ` set xs)\<bar>) ` set xs) = 1"
proof -
  have a: "f x \<in> set (map f xs)" using assms(1) by simp
  have i: "abs ` set (map f xs) = (\<lambda>x. \<bar>f x\<bar>) ` set xs" by (simp add: image_image)
  have "Max (abs ` set (map (\<lambda>y. y / Max (abs ` set (map f xs))) (map f xs))) = 1"
    using a assms(2) by (rule peak_normalized)
  then show ?thesis unfolding i by (simp add: image_image comp_def)
qed

lemma normalize_channel_finite_peak:
  assumes "\<forall>x\<in>set channel. is_finite x" "x \<in> set channel" "real_of x \<noteq> 0"
  shows "\<exists>ys. normalize_channel channel = Inr ys \<and> length ys = length channel
        \<and> (\<forall>i<length channel. is_finite (ys ! i)
              \<and> real_of (ys ! i) = real_of (channel ! i) / Max ((\<lambda>x. \<bar>real_of x\<bar>) ` set channel))
        \<and> np_max (map np_abs ys) = Inr (Fin 1)"
proof -
  let ?m = "Max ((\<lambda>x. \<bar>real_of x\<bar>) ` set channel)"
  let ?ys = "map (\<lambda>v. finite_result (signbit v) (real_of v / ?m)) channel"
  have ne: "channel \<noteq> []" using assms(2) by auto
  have m: "0 < ?m" using assms(2,3) by (rule peak_pos)
  have "map (\<lambda>v. np_divide v (Fin ?m)) channel = ?ys"
    using assms(1) m by (simp add: np_divide_finite_pos)
  then have n: "normalize_channel channel = Inr ?ys"
    using normalize_channel_finite[OF ne assms(1)] by simp
  have l: "length ?ys = length channel" by simp
  have v: "\<forall>i<length channel. is_finite (?ys ! i)
              \<and> real_of (?ys ! i) = real_of (channel ! i) / ?m"
    by (simp add: finite_result_finite finite_result_real)
  have e: "map np_abs ?ys = map (\<lambda>v. Fin \<bar>real_of v / ?m\<bar>) channel"
    by (simp only: map_map comp_def np_abs_finite_result)
  have "np_max (map np_abs ?ys) = Inr (Fin (Max ((\<lambda>v. \<bar>real_of v / ?m\<bar>) ` set channel)))"
    unfolding e by (rule np_max_map_Fin[OF ne])
  then have p: "np_max (map np_abs ?ys) = Inr (Fin 1)"
    unfolding peak_normalized_values[of x channel real_of, OF assms(2,3)] .
  show ?thesis
    apply (rule exI[of _ ?ys])
    apply (intro conjI)
    by (rule n l v p)+
qed

text \<open>
  Claim C3, as amended. Normalization divides every sample by the channel's maximum absolute
  value. On a channel of finite samples with a non-zero sample the result has peak absolute
  value \<open>1\<close>. On a non-empty channel of zeros nothing is raised: the divisor is \<open>0\<close> and
  every sample becomes \<open>nan\<close>. Both hold as well for channels that hold negative zeros.
\<close>

theorem normalize_channel_peak_or_nan:
  "(xs \<noteq> [] \<longrightarrow>
     (if \<exists>x\<in>set xs. x \<noteq> 0
      then normalize_channel (map Fin xs) = Inr (map (\<lambda>x. Fin (x / Max (abs ` set xs))) xs)
         \<and> np_max (map np_abs (map (\<lambda>x. Fin (x / Max (abs ` set xs))) xs)) = Inr (Fin 1)
      else normalize_channel (map Fin xs) = Inr (replicate (length xs) NaN)))
   \<and> (channel \<noteq> [] \<and> (\<forall>x\<in>set channel. is_finite x) \<longrightarrow>
     (if \<exists>x\<in>set channel. real_of x \<noteq> 0
      then \<exists>ys. normalize_channel channel = Inr ys \<and> length ys = length channel
        \<and> (\<forall>i<length channel. is_finite (ys ! i)
              \<and> real_of (ys ! i) = real_of (channel ! i) / Max ((\<lambda>x. \<bar>real_of x\<bar>) ` set channel))
        \<and> np_max (map np_abs ys) = Inr (Fin 1)
      else normalize_channel channel = Inr (replicate (length channel) NaN)))"
proof (intro conjI impI)
  assume ne: "xs \<noteq> []"
  let ?m = "Max (abs ` set xs)"
  show "if \<exists>x\<in>set xs. x \<noteq> 0
      then normalize_channel (map Fin xs) = Inr (map (\<lambda>x. Fin (x / ?m)) xs)
         \<and> np_max (map np_abs (map (\<lambda>x. Fin (x / ?m)) xs)) = Inr (Fin 1)
      else normalize_channel (map Fin xs) = Inr (replicate (length xs) NaN)"
  proof (cases "\<exists>x\<in>set xs. x \<noteq> 0")
    case True
    then obtain x where x: "x \<in> set xs" "x \<noteq> 0" by blast
    have m: "0 < ?m" using peak_pos[of x xs "\<lambda>x. x"] x by simp
    have n: "normalize_channel (map Fin xs) = Inr (map (\<lambda>x. Fin (x / ?m)) xs)"
      using normalize_channel_Fin[OF ne] m by (simp add: np_divide_Fin_pos)
    have "np_max (map np_abs (map (\<lambda>x. Fin (x / ?m)) xs))
        = Inr (Fin (Max (abs ` set (map (\<lambda>x. x / ?m) xs))))"
      using np_max_map_Fin[OF ne, of "\<lambda>x. \<bar>x / ?m\<bar>"] by (simp add: comp_def image_image)
    then have "np_max (map np_abs (map (\<lambda>x. Fin (x / ?m)) xs)) = Inr (Fin 1)"
      using peak_normalized[OF x] by simp
    then show ?thesis using True n by simp
  next
    case False
    then have z: "\<forall>x\<in>set xs. x = 0" by blast
    then have "abs ` set xs = {0}" using ne by (cases xs) auto
    then have m: "?m = 0" by simp
    have "map (\<lambda>x. np_divide (Fin x) (Fin 0)) xs = replicate (length xs) NaN"
      using z by (induction xs) (simp_all add: np_divide_zero_zero)
    then show ?thesis using False normalize_channel_Fin[OF ne] m by simp
  qed
next
  assume a: "channel \<noteq> [] \<and> (\<forall>x\<in>set channel. is_finite x)"
  show "if \<exists>x\<in>set channel. real_of x \<noteq> 0
      then \<exists>ys. normalize_channel channel = Inr ys \<and> length ys = length channel
        \<and> (\<forall>i<length channel. is_finite (ys ! i)
              \<and> real_of (ys ! i) = real_of (channel ! i) / Max ((\<lambda>x. \<bar>real_of x\<bar>) ` set channel))
        \<and> np_max (map np_abs ys) = Inr (Fin 1)
      else normalize_channel channel = Inr (replicate (length channel) NaN)"
  proof (cases "\<exists>x\<in>set channel. real_of x \<noteq> 0")
    case True
    then obtain x where x: "x \<in> set channel" "real_of x \<noteq> 0" by blast
    have f: "\<forall>x\<in>set channel. is_finite x" using a by simp
    show ?thesis using True normalize_channel_finite_peak[OF f x] by simp
  next
    case False
    then have "\<forall>x\<in>set channel. is_finite x \<and> real_of x = 0" using a by blast
    then have "normalize_channel channel = Inr (replicate (length channel) NaN)"
      using normalize_channel_silent a by blast
    then show ?thesis using False by simp
  qed
qed

text \<open>Claim C3 as stated fails: a silent channel is not rejected with
  \<open>SilentChannelError\<close>; the division yields \<open>nan\<close> samples.\<close>

theorem silent_channel_not_rejected:
  "normalize_channel [Fin 0, Fin 0] = Inr [NaN, NaN]
   \<and> normalize_channel [Fin 0, Fin 0] \<noteq> Inl SilentChannelError"
  by (simp add: normalize_channel_def np_max_def np_maximum_def np_divide_def)

theorem normalize_channel_peak_or_nan_witness:
  "normalize_channel (map Fin [1 / 2, - 2]) = Inr (map Fin [1 / 4, - 1])
   \<and> np_max (map np_abs (map Fin [1 / 4, - 1])) = Inr (Fin 1)
   \<and> normalize_channel (map Fin [0, 0, 0]) = Inr [NaN, NaN, NaN]
   \<and> (\<exists>ys. normalize_channel [NegZero, Fin (- 2)] = Inr ys \<and> length ys = 2
          \<and> real_of (ys ! 1) = - 1 \<and> np_max (map np_abs ys) = Inr (Fin 1))
   \<and> normalize_channel [NegZero, Fin 0] = Inr [NaN, NaN]"
proof -
  note t1 = normalize_channel_peak_or_nan[of "[1 / 2, - 2]" "[NegZero, Fin (- 2)]"]
  note t2 = normalize_channel_peak_or_nan[of "[0, 0, 0]" "[NegZero, Fin 0]"]
  have a: "normalize_channel (map Fin [1 / 2, - 2]) = Inr (map Fin [1 / 4, - 1])
      \<and> np_max (map np_abs (map Fin [1 / 4, - 1])) = Inr (Fin 1)"
    using conjunct1[OF t1] by simp
  have b: "normalize_channel (map Fin [0, 0, 0]) = Inr [NaN, NaN, NaN]"
    using conjunct1[OF t2] by simp
  have c: "\<exists>ys. normalize_channel [NegZero, Fin (- 2)] = Inr ys \<and> length ys = 2
          \<and> real_of (ys ! 1) = - 1 \<and> np_max (map np_abs ys) = Inr (Fin 1)"
    using conjunct2[OF t1] by auto
  have d: "normalize_channel [NegZero, Fin 0] = Inr [NaN, NaN]"
    using conjunct2[OF t2] by simp
  show ?thesis using a b c d by blast
qed

section \<open>The frame windows\<close>

lemma py_int_truediv_pos:
  "0 < b \<Longrightarrow> 0 \<le> a \<Longrightarrow> py_int_truediv a b = Inr (a div b)"
  by (cases "a = 0") (simp_all add: py_int_truediv_def)

lemma py_slice_inside:
  "0 \<le> s \<Longrightarrow> s \<le> e \<Longrightarrow> e \<le> int (length xs) \<Longrightarrow>
     py_slice xs s e = take (nat (e - s)) (drop (nat s) xs)"
  by (simp add: py_slice_def Let_def min_def)

lemma chunk_at_full:
  assumes "0 < k" "(i + 1) * k \<le> n" "n \<le> length xs"
  shows "chunk_at xs n (int k) i = take k (drop (i * k) xs)"
proof -
  have e: "int i * int k + int k \<le> int n"
    using assms(2) by (metis add.commute distrib_right mult.left_neutral of_nat_add of_nat_le_iff of_nat_mult of_nat_1)
  have m: "min (int i * int k + int k) (int n) = int i * int k + int k"
    using e by simp
  have "py_slice xs (int i * int k) (int i * int k + int k)
      = take (nat (int i * int k + int k - int i * int k)) (drop (nat (int i * int k)) xs)"
    using e assms(3) by (intro py_slice_inside) simp_all
  also have "\<dots> = take k (drop (i * k) xs)"
    by (simp add: nat_mult_distrib)
  finally show ?thesis
    by (simp add: chunk_at_def Let_def m)
qed

lemma concat_chunks:
  "n * k \<le> length xs \<Longrightarrow> concat (map (\<lambda>i. take k (drop (i * k) xs)) [0..<n]) = take (n * k) xs"
proof (induction n)
  case 0
  then show ?case by simp
next
  case (Suc n)
  then have "concat (map (\<lambda>i. take k (drop (i * k) xs)) [0..<n]) = take (n * k) xs" by simp
  then have "concat (map (\<lambda>i. take k (drop (i * k) xs)) [0..<Suc n])
      = take (n * k) xs @ take k (drop (n * k) xs)" by simp
  also have "\<dots> = take (n * k + k) xs" by (simp add: take_add)
  finally show ?case by (simp add: add.commute)
qed

text \<open>
  Claim C2. For equal-length channels, a positive frame rate and \<open>sr div frame_rate \<ge> 1\<close>,
  the frame step is \<open>sr div frame_rate\<close>, there are \<open>total_samples div frame_step\<close> windows,
  window \<open>i\<close> holds exactly the \<open>frame_step\<close> samples from index \<open>i * frame_step\<close> on, the
  windows in order make up the first \<open>num_frames * frame_step\<close> samples, and fewer than
  \<open>frame_step\<close> samples are left over at the end. 441000 samples at 44100 Hz and 30 frames
  per second give 300 windows.
\<close>

theorem frame_windows_partition:
  assumes "length right_channel = length left_channel" "0 < frame_rate" "1 \<le> sr div frame_rate"
  shows "\<exists>ws. frame_windows left_channel right_channel sr frame_rate = Inr ws
     \<and> frame_layout sr frame_rate (length left_channel)
         = Inr (sr div frame_rate, int (length left_channel div nat (sr div frame_rate)))
     \<and> length ws = length left_channel div nat (sr div frame_rate)
     \<and> (\<forall>i<length ws.
           ws ! i = (take (nat (sr div frame_rate)) (drop (i * nat (sr div frame_rate)) left_channel),
                     take (nat (sr div frame_rate)) (drop (i * nat (sr div frame_rate)) right_channel))
         \<and> length (fst (ws ! i)) = nat (sr div frame_rate)
         \<and> length (snd (ws ! i)) = nat (sr div frame_rate))
     \<and> concat (map fst ws) = take (length ws * nat (sr div frame_rate)) left_channel
     \<and> concat (map snd ws) = take (length ws * nat (sr div frame_rate)) right_channel
     \<and> length left_channel - length ws * nat (sr div frame_rate) < nat (sr div frame_rate)
     \<and> (length left_channel = 441000 \<and> sr = 44100 \<and> frame_rate = 30 \<longrightarrow> length ws = 300)"
proof -
  define k where "k = nat (sr div frame_rate)"
  define n where "n = length left_channel div k"
  define ws where "ws = map (\<lambda>i. (take k (drop (i * k) left_channel), take k (drop (i * k) right_channel))) [0..<n]"
  have kpos: "0 < k" using assms(3) by (simp add: k_def)
  have ik: "int k = sr div frame_rate" using assms(3) by (simp add: k_def)
  have sr: "0 \<le> sr"
  proof (rule ccontr)
    assume "\<not> 0 \<le> sr"
    then have "sr div frame_rate < 0" using assms(2) by (simp add: div_neg_pos_less0)
    then show False using assms(3) by simp
  qed
  have lay: "frame_layout sr frame_rate (length left_channel) = Inr (int k, int n)"
    using assms(2) sr kpos ik
    by (simp add: frame_layout_def py_int_truediv_pos py_floordiv_def n_def zdiv_int)
  have nk: "n * k \<le> length left_channel"
    by (simp add: n_def)
  have inb: "(i + 1) * k \<le> length left_channel" if "i < n" for i
  proof -
    have "(i + 1) * k \<le> n * k" using that by (intro mult_le_mono1) simp
    then show ?thesis using nk by linarith
  qed
  have cl: "chunk_at left_channel (length left_channel) (int k) i = take k (drop (i * k) left_channel)"
    if "i < n" for i
    using chunk_at_full[OF kpos inb[OF that], of left_channel] by simp
  have cr: "chunk_at right_channel (length left_channel) (int k) i = take k (drop (i * k) right_channel)"
    if "i < n" for i
    using chunk_at_full[OF kpos inb[OF that], of right_channel] assms(1) by simp
  have fw: "frame_windows left_channel right_channel sr frame_rate = Inr ws"
    unfolding frame_windows_def lay ws_def using cl cr by simp
  have len: "length ws = n" by (simp add: ws_def)
  have nth: "ws ! i = (take k (drop (i * k) left_channel), take k (drop (i * k) right_channel))"
    if "i < n" for i using that by (simp add: ws_def)
  have lenl: "length (take k (drop (i * k) left_channel)) = k" if "i < n" for i
    using inb[OF that] by simp
  have lenr: "length (take k (drop (i * k) right_channel)) = k" if "i < n" for i
    using inb[OF that] assms(1) by simp
  have cat1: "concat (map fst ws) = take (n * k) left_channel"
    using concat_chunks[OF nk] by (simp add: ws_def comp_def)
  have cat2: "concat (map snd ws) = take (n * k) right_channel"
    using concat_chunks[of n k right_channel] nk assms(1) by (simp add: ws_def comp_def)
  have rest: "length left_channel - n * k < k"
  proof -
    have "length left_channel - n * k = length left_channel mod k"
      unfolding n_def by (simp add: minus_div_mult_eq_mod)
    then show ?thesis using kpos by simp
  qed
  have ex: "length left_channel = 441000 \<and> sr = 44100 \<and> frame_rate = 30 \<longrightarrow> n = 300"
    by (simp add: n_def k_def)
  show ?thesis
    apply (rule exI[of _ ws])
    unfolding k_def[symmetric] n_def[symmetric] len
    using fw lay ik nth lenl lenr cat1 cat2 rest ex by (simp add: n_def[symmetric])
qed

theorem frame_windows_partition_witness:
  "length [11, 12, 13, 14, 15, 16, 17 :: int] = length [1, 2, 3, 4, 5, 6, 7 :: int]
   \<and> (0::int) < 30 \<and> (1::int) \<le> 100 div 30
   \<and> (\<exists>ws. frame_windows [1, 2, 3, 4, 5, 6, 7 :: int] [11, 12, 13, 14, 15, 16, 17] 100 30 = Inr ws
          \<and> length ws = 2
          \<and> concat (map fst ws) = [1, 2, 3, 4, 5, 6]
          \<and> concat (map snd ws) = [11, 12, 13, 14, 15, 16])
   \<and> (\<exists>ws. frame_windows (replicate 441000 (Fin 0)) (replicate 441000 (Fin 0)) 44100 30 = Inr ws
          \<and> length ws = 300)"
  using frame_windows_partition[of "[11, 12, 13, 14, 15, 16, 17 :: int]" "[1, 2, 3, 4, 5, 6, 7]" 30 100]
        frame_windows_partition[of "replicate 441000 (Fin 0)" "replicate 441000 (Fin 0)" 30 44100]
  by auto

section \<open>The rendering loop and the job\<close>

lemma endswith_append: "endswith (xs @ suffix) suffix"
  by (simp add: endswith_def)

lemma endswith_frame_file: "endswith (frame_file i) ''.png''"
  unfolding frame_file_def using endswith_append[of "''frame_'' @ fmt_05d i" "''.png''"] by simp

text \<open>The names and messages on small numbers.\<close>

lemma py_str_nat_digit: "n < 10 \<Longrightarrow> py_str_nat n = [digit_char n]"
  by (simp add: py_str_nat.simps[of n])

lemma py_str_nat_step: "10 \<le> n \<Longrightarrow> py_str_nat n = py_str_nat (n div 10) @ [digit_char (n mod 10)]"
  by (simp add: py_str_nat.simps[of n])

lemma py_str_nat_examples:
  "py_str_nat 0 = ''0''" "py_str_nat 2 = ''2''" "py_str_nat 42 = ''42''"
  "py_str_nat 123456 = ''123456''"
  by (simp_all add: py_str_nat_digit py_str_nat_step digit_char_def)

lemma replicate_zeros: "replicate 4 (CHR ''0'') = ''0000''" "replicate 3 (CHR ''0'') = ''000''"
  by (simp_all add: eval_nat_numeral)

lemma frame_file_examples:
  "frame_file 0 = ''frame_00000.png''"
  "frame_file 42 = ''frame_00042.png''"
  "frame_file 123456 = ''frame_123456.png''"
  by (simp_all add: frame_file_def fmt_05d_def py_str_nat_examples replicate_zeros)

lemma msg_processed_example:
  "msg_processed demo_worker 2 = ''Processed song.mp3 with 2 frames.''"
  by (simp add: msg_processed_def demo_worker_def py_str_nat_examples)

lemma render_frames_untouched:
  "render_frames w env lc rc fs nf idxs st = (st', ex) \<Longrightarrow>
     error_log st' = error_log st \<and> ffmpeg_invocations st' = ffmpeg_invocations st
     \<and> input_exists st' = input_exists st"
  by (induction idxs arbitrary: st) (auto split: frame_outcome.splits)

lemma render_frames_signals:
  "render_frames w env lc rc fs nf idxs st = (st', ex) \<Longrightarrow>
     \<exists>ps. signals st' = signals st @ ps \<and> (\<forall>s\<in>set ps. \<exists>a b. s = Progress a b)"
proof (induction idxs arbitrary: st)
  case Nil
  then show ?case by simp
next
  case (Cons i rest)
  show ?case
  proof (cases "frame_body w env lc rc fs i")
    case FrameDone
    let ?st = "st\<lparr>temp_files := insert (frame_file i) (temp_files st),
                num_frames_generated := num_frames_generated st + 1,
                signals := signals st @ [Progress (i + 1) nf]\<rparr>"
    have "render_frames w env lc rc fs nf rest ?st = (st', ex)"
      using Cons.prems FrameDone by simp
    from Cons.IH[OF this] obtain ps where
      "signals st' = signals ?st @ ps" "\<forall>s\<in>set ps. \<exists>a b. s = Progress a b" by blast
    then have "signals st' = signals st @ (Progress (i + 1) nf # ps)
        \<and> (\<forall>s\<in>set (Progress (i + 1) nf # ps). \<exists>a b. s = Progress a b)" by simp
    then show ?thesis by blast
  next
    case RaisesBeforeFile
    then show ?thesis using Cons.prems by auto
  next
    case RaisesAfterFile
    then show ?thesis using Cons.prems by auto
  next
    case RaisesAfterCount
    then show ?thesis using Cons.prems by auto
  qed
qed

lemma render_frames_append:
  "render_frames w env lc rc fs nf (xs @ ys) st =
     (case render_frames w env lc rc fs nf xs st of
        (st', None) \<Rightarrow> render_frames w env lc rc fs nf ys st'
      | (st', Some e) \<Rightarrow> (st', Some e))"
  by (induction xs arbitrary: st) (auto split: frame_outcome.splits)


lemma image_upt_step:
  "Suc j \<le> k \<Longrightarrow> insert (f j) T \<union> f ` {Suc j..<k} = T \<union> f ` {j..<k}"
proof -
  assume "Suc j \<le> k"
  then have "{j..<k} = insert j {Suc j..<k}" by auto
  then show ?thesis by auto
qed

lemma image_upto_step:
  "Suc j \<le> k \<Longrightarrow> insert (f j) T \<union> f ` {Suc j..k} = T \<union> f ` {j..k}"
proof -
  assume "Suc j \<le> k"
  then have "{j..k} = insert j {Suc j..k}" by auto
  then show ?thesis by auto
qed

lemma render_frames_count:
  assumes "render_frames w env lc rc fs nf [j..<n] st = (st', ex)"
      and "num_frames_generated st = j" and "j \<le> n"
  shows "j \<le> num_frames_generated st' \<and> num_frames_generated st' \<le> n
     \<and> (ex = None \<longrightarrow> num_frames_generated st' = n)"
  using assms
proof (induction "n - j" arbitrary: j st)
  case 0
  then show ?case by simp
next
  case (Suc d)
  then have jn: "j < n" by simp
  then have upt: "[j..<n] = j # [Suc j..<n]" by (simp add: upt_conv_Cons)
  show ?case
  proof (cases "frame_body w env lc rc fs j")
    case FrameDone
    let ?st = "st\<lparr>temp_files := insert (frame_file j) (temp_files st),
                num_frames_generated := num_frames_generated st + 1,
                signals := signals st @ [Progress (j + 1) nf]\<rparr>"
    have r: "render_frames w env lc rc fs nf [Suc j..<n] ?st = (st', ex)"
      using Suc.prems(1) FrameDone upt by simp
    have d: "d = n - Suc j" using Suc.hyps(2) by simp
    have c: "num_frames_generated ?st = Suc j" using Suc.prems(2) by simp
    have le: "Suc j \<le> n" using jn by simp
    from Suc.hyps(1)[OF d r c le] show ?thesis by simp
  next
    case RaisesBeforeFile
    then have "st' = st" "ex = Some OtherException" using Suc.prems(1) upt by simp_all
    then show ?thesis using Suc.prems(2) jn by simp
  next
    case RaisesAfterFile
    then have "st' = st\<lparr>temp_files := insert (frame_file j) (temp_files st)\<rparr>" "ex = Some OtherException"
      using Suc.prems(1) upt by simp_all
    then show ?thesis using Suc.prems(2) jn by simp
  next
    case RaisesAfterCount
    then have "st' = st\<lparr>temp_files := insert (frame_file j) (temp_files st),
              num_frames_generated := num_frames_generated st + 1\<rparr>" "ex = Some OtherException"
      using Suc.prems(1) upt by simp_all
    then show ?thesis using Suc.prems(2) jn by simp
  qed
qed

lemma render_frames_files:
  assumes "render_frames w env lc rc fs nf [j..<n] st = (st', ex)"
      and "num_frames_generated st = j" and "j \<le> n"
  shows "temp_files st' = temp_files st \<union> frame_file ` {j..<num_frames_generated st'}
       \<or> (ex \<noteq> None \<and> num_frames_generated st' < n
          \<and> frame_body w env lc rc fs (num_frames_generated st') = RaisesAfterFile
          \<and> temp_files st' = temp_files st \<union> frame_file ` {j..num_frames_generated st'})"
  using assms
proof (induction "n - j" arbitrary: j st)
  case 0
  then show ?case by simp
next
  case (Suc d)
  then have jn: "j < n" by simp
  then have upt: "[j..<n] = j # [Suc j..<n]" by (simp add: upt_conv_Cons)
  show ?case
  proof (cases "frame_body w env lc rc fs j")
    case FrameDone
    let ?st = "st\<lparr>temp_files := insert (frame_file j) (temp_files st),
                num_frames_generated := num_frames_generated st + 1,
                signals := signals st @ [Progress (j + 1) nf]\<rparr>"
    have r: "render_frames w env lc rc fs nf [Suc j..<n] ?st = (st', ex)"
      using Suc.prems(1) FrameDone upt by simp
    have d: "d = n - Suc j" using Suc.hyps(2) by simp
    have c: "num_frames_generated ?st = Suc j" using Suc.prems(2) by simp
    have le: "Suc j \<le> n" using jn by simp
    have k: "Suc j \<le> num_frames_generated st'"
      using render_frames_count[OF r c le] by simp
    have t: "temp_files ?st = insert (frame_file j) (temp_files st)" by simp
    from Suc.hyps(1)[OF d r c le] show ?thesis
      unfolding t image_upt_step[OF k] image_upto_step[OF k] .
  next
    case RaisesBeforeFile
    then have "st' = st" "ex = Some OtherException" using Suc.prems(1) upt by simp_all
    then show ?thesis using Suc.prems(2) by simp
  next
    case RaisesAfterFile
    then have "st' = st\<lparr>temp_files := insert (frame_file j) (temp_files st)\<rparr>" "ex = Some OtherException"
      using Suc.prems(1) upt by simp_all
    then show ?thesis using Suc.prems(2) jn RaisesAfterFile by simp
  next
    case RaisesAfterCount
    then have "st' = st\<lparr>temp_files := insert (frame_file j) (temp_files st),
              num_frames_generated := num_frames_generated st + 1\<rparr>" "ex = Some OtherException"
      using Suc.prems(1) upt by simp_all
    then show ?thesis using Suc.prems(2) by simp
  qed
qed


lemma new_job_reset: "(new_job T b)\<lparr>num_frames_generated := 0\<rparr> = new_job T b"
  by (simp add: new_job_def)

lemma build_request_Inr:
  "fps w \<noteq> 0 \<Longrightarrow> \<exists>req. build_request w n = Inr req \<and> framerate req = fps w \<and> out_r req = fps w
      \<and> out_t req = real n / real_of_int (fps w) \<and> frames_pattern req = ''frame_%05d.png''"
  by (simp add: build_request_def)

lemma attempt_compile_skip:
  "\<not> (0 < num_frames_generated st \<and> input_exists st) \<Longrightarrow> attempt_compile w env st = (st, None)"
  by (auto simp: attempt_compile_def)

lemma frame_layout_fps:
  "frame_layout sr f n = Inr p \<Longrightarrow> f \<noteq> 0"
  by (auto simp: frame_layout_def py_int_truediv_def split: if_splits)

lemma try_block_cases:
  assumes "try_block w env st = (st1, ex)"
  obtains (prelude) e where "st1 = st" "ex = Some e"
  | (loop) lc rc fs nf sl exl where "input_exists st" "fps w \<noteq> 0"
      "render_frames w env lc rc fs nf [0..<nat nf] st = (sl, exl)"
      "exl \<noteq> None \<longrightarrow> st1 = sl \<and> ex = exl"
      "exl = None \<longrightarrow> attempt_compile w env sl = (st1, ex)"
proof (cases "input_exists st")
  case False
  then have "st1 = st \<and> (\<exists>e. ex = Some e)" using assms  by (auto simp: try_block_def)
    then show ?thesis using prelude by blast
next
  case inp: True
  show ?thesis
  proof (cases "librosa_load env")
    case (Inl e)
    then have "st1 = st \<and> (\<exists>e. ex = Some e)" using assms inp by (auto simp: try_block_def)
    then show ?thesis using prelude by blast
  next
    case (Inr loaded)
    obtain y0 y1 sr where l: "loaded = (y0, y1, sr)" by (cases loaded) auto
    show ?thesis
    proof (cases "normalize_channel y0")
      case (Inl e)
      then have "st1 = st \<and> (\<exists>e. ex = Some e)" using assms inp Inr l by (auto simp: try_block_def)
    then show ?thesis using prelude by blast
    next
      case n0: (Inr lc)
      show ?thesis
      proof (cases "normalize_channel y1")
        case (Inl e)
        then have "st1 = st \<and> (\<exists>e. ex = Some e)" using assms inp Inr l n0 by (auto simp: try_block_def)
    then show ?thesis using prelude by blast
      next
        case n1: (Inr rc)
        show ?thesis
        proof (cases "frame_layout sr (fps w) (length lc)")
          case (Inl e)
          then have "st1 = st \<and> (\<exists>e. ex = Some e)" using assms inp Inr l n0 n1 by (auto simp: try_block_def)
    then show ?thesis using prelude by blast
        next
          case lay: (Inr p)
          obtain fs nf where p: "p = (fs, nf)" by (cases p) auto
          obtain sl exl where r: "render_frames w env lc rc fs nf [0..<nat nf] st = (sl, exl)"
            by (cases "render_frames w env lc rc fs nf [0..<nat nf] st") auto
          have f: "fps w \<noteq> 0" using lay by (rule frame_layout_fps)
          have t: "try_block w env st =
              (case exl of Some e \<Rightarrow> (sl, Some e) | None \<Rightarrow> attempt_compile w env sl)"
            using inp Inr l n0 n1 lay p r by (simp add: try_block_def split: option.splits)
          have a: "exl \<noteq> None \<longrightarrow> st1 = sl \<and> ex = exl"
            using t assms by (auto split: option.splits)
          have b: "exl = None \<longrightarrow> attempt_compile w env sl = (st1, ex)"
            using t assms by (auto split: option.splits)
          show ?thesis using loop[OF inp f r a b] .
        qed
      qed
    qed
  qed
qed

lemma run_unfold:
  "run w env (new_job T b) =
     (case try_block w env (new_job T b) of
        (st1, None) \<Rightarrow> (final_report w (cleanup st1), None)
      | (st1, Some e) \<Rightarrow>
          (case except_handler w env e st1 of
             (st2, None) \<Rightarrow> (final_report w (cleanup st2), None)
           | (st2, Some e') \<Rightarrow> (st2, Some e')))"
  by (simp add: run_def new_job_reset split: prod.splits option.splits)

lemma closing_effect:
  "signals (final_report w (cleanup st)) =
      signals st @ [if 0 < num_frames_generated st
                    then Finished (msg_processed w (num_frames_generated st))
                    else Error (msg_no_frames w)]
   \<and> num_frames_generated (final_report w (cleanup st)) = num_frames_generated st
   \<and> ffmpeg_invocations (final_report w (cleanup st)) = ffmpeg_invocations st
   \<and> error_log (final_report w (cleanup st)) = error_log st
   \<and> temp_files (final_report w (cleanup st)) = {f \<in> temp_files st. \<not> endswith f ''.png''}
   \<and> \<not> input_exists (final_report w (cleanup st))"
  by (simp add: final_report_def cleanup_def)


lemma cleanup_no_png: "\<forall>f\<in>temp_files (final_report w (cleanup st)). \<not> endswith f ''.png''"
  by (simp add: final_report_def cleanup_def)

lemma cleanup_no_frame_file: "frame_file i \<notin> temp_files (final_report w (cleanup st))"
  using cleanup_no_png[of w st] endswith_frame_file[of i] by blast



lemma attempt_compile_run:
  assumes "0 < num_frames_generated st" "input_exists st"
      and "build_request w (num_frames_generated st) = Inr req"
  shows "attempt_compile w env st =
     (case ffmpeg_run env (length (ffmpeg_invocations st)) req (temp_files st) of
        EncoderReturns \<Rightarrow>
          (st\<lparr>ffmpeg_invocations := ffmpeg_invocations st @ [(req, temp_files st)]\<rparr>, None)
      | EncoderFails \<Rightarrow>
          (st\<lparr>ffmpeg_invocations := ffmpeg_invocations st @ [(req, temp_files st)],
              error_log := error_log st @ [VideoCompilationFailed],
              signals := signals st @ [Error (msg_compilation_failed w)]\<rparr>, None)
      | EncoderRaises e \<Rightarrow>
          (st\<lparr>ffmpeg_invocations := ffmpeg_invocations st @ [(req, temp_files st)]\<rparr>, Some e))"
  using assms by (simp add: attempt_compile_def compile_video_def Let_def split: encoder_outcome.splits)

lemma job_invariant_new_job: "job_invariant w (new_job T b)"
  by (simp add: job_invariant_def new_job_def)

lemma job_invariant_invoked:
  assumes "job_invariant w st" "build_request w (num_frames_generated st) = Inr req"
      and "0 < num_frames_generated st"
  shows "job_invariant w (st\<lparr>ffmpeg_invocations := ffmpeg_invocations st @ [(req, temp_files st)]\<rparr>)"
  using assms by (auto simp: job_invariant_def)

lemma job_invariant_failed:
  assumes "job_invariant w st" "build_request w (num_frames_generated st) = Inr req"
      and "0 < num_frames_generated st"
  shows "job_invariant w (st\<lparr>ffmpeg_invocations := ffmpeg_invocations st @ [(req, temp_files st)],
              error_log := error_log st @ [VideoCompilationFailed],
              signals := signals st @ [Error (msg_compilation_failed w)]\<rparr>)"
  using assms by (auto simp: job_invariant_def)

lemma job_invariant_handler:
  assumes "job_invariant w st"
  shows "job_invariant w (st\<lparr>error_log := error_log st @ [FrameGenerationFailed e],
           signals := signals st @ [Error (msg_error_processing w)]\<rparr>)"
  using assms by (auto simp: job_invariant_def)

text \<open>What an attempt to compile does to a state that satisfies the invariant: the counter,
  the frame directory and the input stay as they are, signals are only added, and an
  exception leaves the attempt only when frames exist and the run of ffmpeg raised it.\<close>

lemma attempt_compile_effect:
  assumes inv: "job_invariant w st" and ac: "attempt_compile w env st = (st', ex)"
  shows "job_invariant w st' \<and> num_frames_generated st' = num_frames_generated st
     \<and> temp_files st' = temp_files st
     \<and> set (signals st) \<subseteq> set (signals st')
     \<and> (ex \<noteq> None \<longrightarrow> 0 < num_frames_generated st
           \<and> (\<exists>n req files e. ffmpeg_run env n req files = EncoderRaises e \<and> ex = Some e))
     \<and> (0 < num_frames_generated st \<longrightarrow> ffmpeg_invocations st' \<noteq> [])"
proof (cases "0 < num_frames_generated st \<and> input_exists st")
  case False
  then have "attempt_compile w env st = (st, None)" by (rule attempt_compile_skip)
  then have e: "st' = st" "ex = None" using ac by simp_all
  have "\<not> 0 < num_frames_generated st" using False inv by (auto simp: job_invariant_def)
  then show ?thesis unfolding e using inv by simp
next
  case True
  then have pos: "0 < num_frames_generated st" and inp: "input_exists st" by simp_all
  have "fps w \<noteq> 0" using inv pos by (simp add: job_invariant_def)
  then obtain req where req: "build_request w (num_frames_generated st) = Inr req"
    using build_request_Inr by blast
  note a = attempt_compile_run[OF pos inp req, of env]
  let ?s = "st\<lparr>ffmpeg_invocations := ffmpeg_invocations st @ [(req, temp_files st)]\<rparr>"
  let ?f = "st\<lparr>ffmpeg_invocations := ffmpeg_invocations st @ [(req, temp_files st)],
              error_log := error_log st @ [VideoCompilationFailed],
              signals := signals st @ [Error (msg_compilation_failed w)]\<rparr>"
  have inv_s: "job_invariant w ?s" using inv req pos by (rule job_invariant_invoked)
  have inv_f: "job_invariant w ?f" using inv req pos by (rule job_invariant_failed)
  show ?thesis
  proof (cases "ffmpeg_run env (length (ffmpeg_invocations st)) req (temp_files st)")
    case EncoderReturns
    then have e: "st' = ?s" "ex = None" using a ac by simp_all
    show ?thesis unfolding e using inv_s by simp
  next
    case EncoderFails
    then have e: "st' = ?f" "ex = None" using a ac by simp_all
    show ?thesis unfolding e using inv_f by auto
  next
    case (EncoderRaises x)
    then have e: "st' = ?s" "ex = Some x" using a ac by simp_all
    have "\<exists>n req files e. ffmpeg_run env n req files = EncoderRaises e \<and> Some x = Some e"
      using EncoderRaises by blast
    then show ?thesis unfolding e using inv_s pos by simp
  qed
qed

lemma except_handler_effect:
  assumes inv: "job_invariant w st" and h: "except_handler w env e st = (st', ex)"
  shows "job_invariant w st' \<and> num_frames_generated st' = num_frames_generated st
     \<and> temp_files st' = temp_files st
     \<and> Error (msg_error_processing w) \<in> set (signals st')
     \<and> (ex \<noteq> None \<longrightarrow> 0 < num_frames_generated st
           \<and> (\<exists>n req files e. ffmpeg_run env n req files = EncoderRaises e \<and> ex = Some e))
     \<and> (0 < num_frames_generated st \<longrightarrow> ffmpeg_invocations st' \<noteq> [])"
proof -
  let ?h = "st\<lparr>error_log := error_log st @ [FrameGenerationFailed e],
           signals := signals st @ [Error (msg_error_processing w)]\<rparr>"
  have ih: "job_invariant w ?h" using inv by (rule job_invariant_handler)
  have ac: "attempt_compile w env ?h = (st', ex)" using h by (simp add: except_handler_def)
  note eff = attempt_compile_effect[OF ih ac]
  have "Error (msg_error_processing w) \<in> set (signals ?h)" by simp
  then have m: "Error (msg_error_processing w) \<in> set (signals st')" using eff by blast
  show ?thesis using eff m by simp
qed

text \<open>The state that leaves the \<^verbatim>\<open>try\<close> body satisfies the invariant and still holds the
  files the frame directory held at the start.\<close>

lemma try_block_effect:
  assumes tb: "try_block w env (new_job T b) = (st1, raised)"
  shows "job_invariant w st1 \<and> T \<subseteq> temp_files st1
     \<and> (num_frames_generated st1 = 0 \<longrightarrow> raised = None \<or> (\<exists>e. raised = Some e))"
  using tb
proof (cases rule: try_block_cases)
  case (prelude e)
  then show ?thesis using job_invariant_new_job[of w T b] by (simp add: new_job_def)
next
  case (loop lc rc fs nf sl exl)
  have init: "num_frames_generated (new_job T b) = 0" "signals (new_job T b) = []"
    "error_log (new_job T b) = []" "ffmpeg_invocations (new_job T b) = []"
    "temp_files (new_job T b) = T" "input_exists (new_job T b) = b"
    by (simp_all add: new_job_def)
  note u = render_frames_untouched[OF loop(3)]
  obtain ps where ps: "signals sl = ps" "\<forall>s\<in>set ps. \<exists>a c. s = Progress a c"
    using render_frames_signals[OF loop(3)] init(2) by auto
  have files: "T \<union> frame_file ` {..<num_frames_generated sl} \<subseteq> temp_files sl"
    using render_frames_files[OF loop(3)] init(1,5) by (auto simp: lessThan_atLeast0)
  have inp: "input_exists sl" using u loop(1) by simp
  have inv0: "ffmpeg_invocations sl = []" using u init by simp
  have isl: "job_invariant w sl"
    unfolding job_invariant_def using ps files inp inv0 loop(2) by auto
  have tsl: "T \<subseteq> temp_files sl" using files by blast
  show ?thesis
  proof (cases exl)
    case None
    then have ac: "attempt_compile w env sl = (st1, raised)" using loop(5) by simp
    note eff = attempt_compile_effect[OF isl ac]
    show ?thesis using eff tsl by (cases raised) simp_all
  next
    case (Some e)
    then have "st1 = sl" "raised = Some e" using loop(4) by simp_all
    then show ?thesis using isl tsl by simp
  qed
qed

text \<open>How a job ends. The state \<open>st2\<close> is the state after the \<^verbatim>\<open>try\<close> statement; either
  \<open>run\<close> goes on to the clean-up and the closing signal, or an exception raised by the run of
  ffmpeg in the handler leaves \<open>run\<close> in that state.\<close>

lemma run_summary_ex:
  "\<exists>st1 raised st2 escaped.
      try_block w env (new_job T b) = (st1, raised)
    \<and> job_invariant w st2
    \<and> num_frames_generated st2 = num_frames_generated st1
    \<and> temp_files st2 = temp_files st1
    \<and> T \<subseteq> temp_files st1
    \<and> (raised \<noteq> None \<longrightarrow> Error (msg_error_processing w) \<in> set (signals st2))
    \<and> (0 < num_frames_generated st1 \<and> raised \<noteq> None \<longrightarrow> ffmpeg_invocations st2 \<noteq> [])
    \<and> (escaped = None \<longrightarrow> run w env (new_job T b) = (final_report w (cleanup st2), None))
    \<and> (escaped \<noteq> None \<longrightarrow> run w env (new_job T b) = (st2, escaped)
          \<and> 0 < num_frames_generated st2 \<and> raised \<noteq> None
          \<and> (\<exists>n req files e. ffmpeg_run env n req files = EncoderRaises e \<and> escaped = Some e))"
proof -
  obtain st1 raised where tb: "try_block w env (new_job T b) = (st1, raised)"
    by (cases "try_block w env (new_job T b)") auto
  note te = try_block_effect[OF tb]
  have i1: "job_invariant w st1" and t1: "T \<subseteq> temp_files st1" using te by simp_all
  show ?thesis
  proof (cases raised)
    case None
    have r: "run w env (new_job T b) = (final_report w (cleanup st1), None)"
      unfolding run_unfold tb None by simp
    show ?thesis
      apply (rule exI[of _ st1], rule exI[of _ raised], rule exI[of _ st1], rule exI[of _ None])
      using tb i1 t1 r None by simp
  next
    case (Some e)
    obtain st2 escaped where h: "except_handler w env e st1 = (st2, escaped)"
      by (cases "except_handler w env e st1") auto
    note he = except_handler_effect[OF i1 h]
    have i2: "job_invariant w st2" and c2: "num_frames_generated st2 = num_frames_generated st1"
      and f2: "temp_files st2 = temp_files st1"
      and m2: "Error (msg_error_processing w) \<in> set (signals st2)" using he by simp_all
    have x2: "escaped \<noteq> None \<longrightarrow> 0 < num_frames_generated st2
           \<and> (\<exists>n req files e. ffmpeg_run env n req files = EncoderRaises e \<and> escaped = Some e)"
      using he c2 by simp
    have r: "run w env (new_job T b) =
        (case escaped of None \<Rightarrow> (final_report w (cleanup st2), None) | Some e' \<Rightarrow> (st2, Some e'))"
      unfolding run_unfold tb Some by (simp add: h split: option.splits)
    have rn: "escaped = None \<longrightarrow> run w env (new_job T b) = (final_report w (cleanup st2), None)"
      using r by simp
    have rs: "escaped \<noteq> None \<longrightarrow> run w env (new_job T b) = (st2, escaped)"
      using r by (cases escaped) simp_all
    have rr: "raised \<noteq> None" using Some by simp
    have iv: "0 < num_frames_generated st1 \<and> raised \<noteq> None \<longrightarrow> ffmpeg_invocations st2 \<noteq> []"
      using he by simp
    show ?thesis
      apply (rule exI[of _ st1], rule exI[of _ raised], rule exI[of _ st2], rule exI[of _ escaped])
      using tb i2 c2 f2 t1 m2 rn rs rr x2 iv by blast
  qed
qed

lemma run_summary:
  obtains st1 raised st2 escaped where
    "try_block w env (new_job T b) = (st1, raised)"
    "job_invariant w st2"
    "num_frames_generated st2 = num_frames_generated st1"
    "temp_files st2 = temp_files st1"
    "T \<subseteq> temp_files st1"
    "raised \<noteq> None \<longrightarrow> Error (msg_error_processing w) \<in> set (signals st2)"
    "0 < num_frames_generated st1 \<and> raised \<noteq> None \<longrightarrow> ffmpeg_invocations st2 \<noteq> []"
    "escaped = None \<longrightarrow> run w env (new_job T b) = (final_report w (cleanup st2), None)"
    "escaped \<noteq> None \<longrightarrow> run w env (new_job T b) = (st2, escaped)
          \<and> 0 < num_frames_generated st2 \<and> raised \<noteq> None
          \<and> (\<exists>n req files e. ffmpeg_run env n req files = EncoderRaises e \<and> escaped = Some e)"
  using run_summary_ex[of w env T b]
  by (elim exE conjE) (rule that, assumption+)



lemma job_invariant_invocation:
  "job_invariant w st \<Longrightarrow> (req, files) \<in> set (ffmpeg_invocations st) \<Longrightarrow>
     build_request w (num_frames_generated st) = Inr req \<and> files = temp_files st
     \<and> frame_file ` {..<num_frames_generated st} \<subseteq> files \<and> 0 < num_frames_generated st"
proof -
  assume i: "job_invariant w st" and m: "(req, files) \<in> set (ffmpeg_invocations st)"
  have a: "\<forall>inv\<in>set (ffmpeg_invocations st).
          build_request w (num_frames_generated st) = Inr (fst inv) \<and> snd inv = temp_files st"
    and f: "frame_file ` {..<num_frames_generated st} \<subseteq> temp_files st"
    and z: "num_frames_generated st = 0 \<longrightarrow> ffmpeg_invocations st = []"
    using i by (simp_all add: job_invariant_def)
  have b: "build_request w (num_frames_generated st) = Inr req" "files = temp_files st"
    using a m by force+
  have p: "0 < num_frames_generated st" using z m by (cases "num_frames_generated st = 0") auto
  show ?thesis using b f p by simp
qed



lemma demo_layout:
  "normalize_channel (fst demo_audio) = Inr [Fin 1, Fin (- 1), Fin (1 / 2), Fin 0]"
  "normalize_channel (fst (snd demo_audio)) = Inr [Fin 0, Fin 1, Fin (1 / 2), Fin (- 1)]"
  "frame_layout 60 30 (length [Fin 1, Fin (- 1), Fin (1 / 2), Fin 0]) = Inr (2, 2)"
  by (simp_all add: demo_audio_def normalize_channel_def np_max_def np_maximum_def np_divide_def
        finite_result_def signed_zero_def frame_layout_def py_int_truediv_def py_floordiv_def)

lemma demo_try_block:
  "try_block demo_worker (demo_env outcome enc) st =
     (if \<not> input_exists st then (st, Some FileNotFoundError)
      else case render_frames demo_worker (demo_env outcome enc)
                  [Fin 1, Fin (- 1), Fin (1 / 2), Fin 0] [Fin 0, Fin 1, Fin (1 / 2), Fin (- 1)] 2 2 [0, 1] st of
             (st', Some e) \<Rightarrow> (st', Some e)
           | (st', None) \<Rightarrow> attempt_compile demo_worker (demo_env outcome enc) st')"
proof -
  have u: "[0..<nat 2] = [0, 1]" by (simp add: upt_rec)
  have l: "librosa_load (demo_env outcome enc) = Inr demo_audio" by (simp add: demo_env_def)
  have f: "fps demo_worker = 30" by (simp add: demo_worker_def)
  obtain y0 y1 sr where d: "demo_audio = (y0, y1, sr)" by (cases demo_audio) auto
  have y: "y0 = fst demo_audio" "y1 = fst (snd demo_audio)" "sr = 60"
    using d by (simp_all add: demo_audio_def)
  show ?thesis
    unfolding try_block_def l d
    using demo_layout[folded y] f y(3) u by (simp add: y(3))
qed

lemma demo_frame_body:
  "frame_body w (demo_env outcome enc) lc rc fs i = outcome i"
  by (simp add: frame_body_def demo_env_def Let_def)

lemma demo_request:
  "build_request demo_worker n = Inr \<lparr>frames_pattern = ''frame_%05d.png'', framerate = 30,
                target_size = (1280, 720), vcodec = ''libx264'', acodec = ''libmp3lame'',
                audio_bitrate = ''192k'', pix_fmt = ''yuv420p'', out_r = 30,
                out_t = real n / 30\<rparr>"
  by (simp add: build_request_def demo_worker_def)

lemma demo_ffmpeg_run: "ffmpeg_run (demo_env outcome enc) n req files = enc n"
  by (simp add: demo_env_def)


lemma demo_loop_second_raises:
  "render_frames demo_worker (demo_env (\<lambda>i. if i = 0 then FrameDone else RaisesBeforeFile) enc)
       lc rc 2 2 [0, 1] (new_job {} True) =
     (\<lparr>num_frames_generated = 1, signals = [Progress 1 2], error_log = [],
       temp_files = {frame_file 0}, input_exists = True, ffmpeg_invocations = []\<rparr>,
      Some OtherException)"
  by (simp add: demo_frame_body new_job_def)


lemma demo_try_second_raises:
  "try_block demo_worker (demo_env (\<lambda>i. if i = 0 then FrameDone else RaisesBeforeFile) enc)
       (new_job {} True) =
     (\<lparr>num_frames_generated = 1, signals = [Progress 1 2], error_log = [],
       temp_files = {frame_file 0}, input_exists = True, ffmpeg_invocations = []\<rparr>,
      Some OtherException)"
  unfolding demo_try_block demo_loop_second_raises
  by (simp add: new_job_def)

lemma demo_handler_second_raises:
  "except_handler demo_worker (demo_env outcome enc) OtherException
     \<lparr>num_frames_generated = 1, signals = [Progress 1 2], error_log = [],
       temp_files = {frame_file 0}, input_exists = True, ffmpeg_invocations = []\<rparr> =
     (case enc 0 of
        EncoderReturns \<Rightarrow>
          (\<lparr>num_frames_generated = 1,
            signals = [Progress 1 2, Error (msg_error_processing demo_worker)],
            error_log = [FrameGenerationFailed OtherException],
            temp_files = {frame_file 0}, input_exists = True,
            ffmpeg_invocations =
              [(\<lparr>frames_pattern = ''frame_%05d.png'', framerate = 30,
                target_size = (1280, 720), vcodec = ''libx264'', acodec = ''libmp3lame'',
                audio_bitrate = ''192k'', pix_fmt = ''yuv420p'', out_r = 30,
                out_t = 1 / 30\<rparr>, {frame_file 0})]\<rparr>, None)
      | EncoderFails \<Rightarrow>
          (\<lparr>num_frames_generated = 1,
            signals = [Progress 1 2, Error (msg_error_processing demo_worker),
                       Error (msg_compilation_failed demo_worker)],
            error_log = [FrameGenerationFailed OtherException, VideoCompilationFailed],
            temp_files = {frame_file 0}, input_exists = True,
            ffmpeg_invocations =
              [(\<lparr>frames_pattern = ''frame_%05d.png'', framerate = 30,
                target_size = (1280, 720), vcodec = ''libx264'', acodec = ''libmp3lame'',
                audio_bitrate = ''192k'', pix_fmt = ''yuv420p'', out_r = 30,
                out_t = 1 / 30\<rparr>, {frame_file 0})]\<rparr>, None)
      | EncoderRaises e \<Rightarrow>
          (\<lparr>num_frames_generated = 1,
            signals = [Progress 1 2, Error (msg_error_processing demo_worker)],
            error_log = [FrameGenerationFailed OtherException],
            temp_files = {frame_file 0}, input_exists = True,
            ffmpeg_invocations =
              [(\<lparr>frames_pattern = ''frame_%05d.png'', framerate = 30,
                target_size = (1280, 720), vcodec = ''libx264'', acodec = ''libmp3lame'',
                audio_bitrate = ''192k'', pix_fmt = ''yuv420p'', out_r = 30,
                out_t = 1 / 30\<rparr>, {frame_file 0})]\<rparr>, Some e))"
  by (simp add: except_handler_def attempt_compile_def compile_video_def demo_request
        demo_ffmpeg_run Let_def split: encoder_outcome.splits)

text \<open>The job whose second frame raises, on a machine where every run of ffmpeg raises
  \<open>FileNotFoundError\<close> (there is no ffmpeg executable): \<open>run\<close> is left by that exception,
  in the state of the handler.\<close>

lemma demo_run_encoder_raises:
  "run demo_worker (demo_env (\<lambda>i. if i = 0 then FrameDone else RaisesBeforeFile)
        (\<lambda>n. EncoderRaises FileNotFoundError)) (new_job {} True) =
     (\<lparr>num_frames_generated = 1,
       signals = [Progress 1 2, Error (msg_error_processing demo_worker)],
       error_log = [FrameGenerationFailed OtherException],
       temp_files = {frame_file 0}, input_exists = True,
       ffmpeg_invocations =
         [(\<lparr>frames_pattern = ''frame_%05d.png'', framerate = 30,
           target_size = (1280, 720), vcodec = ''libx264'', acodec = ''libmp3lame'',
           audio_bitrate = ''192k'', pix_fmt = ''yuv420p'', out_r = 30,
           out_t = 1 / 30\<rparr>, {frame_file 0})]\<rparr>, Some FileNotFoundError)"
  unfolding run_unfold demo_try_second_raises prod.case option.case demo_handler_second_raises
    encoder_outcome.case
  by simp

text \<open>The same job where the run of ffmpeg raises \<^verbatim>\<open>ffmpeg.Error\<close>: the failure is logged
  and signalled, the job closes with the success summary for one frame, and the frame
  directory is cleaned.\<close>

lemma demo_run_encoder_fails:
  "run demo_worker (demo_env (\<lambda>i. if i = 0 then FrameDone else RaisesBeforeFile)
        (\<lambda>n. EncoderFails)) (new_job {} True) =
     (\<lparr>num_frames_generated = 1,
       signals = [Progress 1 2, Error (msg_error_processing demo_worker),
                  Error (msg_compilation_failed demo_worker),
                  Finished (msg_processed demo_worker 1)],
       error_log = [FrameGenerationFailed OtherException, VideoCompilationFailed],
       temp_files = {}, input_exists = False,
       ffmpeg_invocations =
         [(\<lparr>frames_pattern = ''frame_%05d.png'', framerate = 30,
           target_size = (1280, 720), vcodec = ''libx264'', acodec = ''libmp3lame'',
           audio_bitrate = ''192k'', pix_fmt = ''yuv420p'', out_r = 30,
           out_t = 1 / 30\<rparr>, {frame_file 0})]\<rparr>, None)"
  unfolding run_unfold demo_try_second_raises prod.case option.case demo_handler_second_raises
    encoder_outcome.case
  by (auto simp: final_report_def cleanup_def endswith_frame_file)





section \<open>Properties of the job\<close>







lemma build_request_fields:
  "build_request w n = Inr req \<Longrightarrow>
     fps w \<noteq> 0 \<and> frames_pattern req = ''frame_%05d.png'' \<and> framerate req = fps w
     \<and> out_r req = fps w \<and> out_t req = real n / real_of_int (fps w)"
  by (auto simp: build_request_def split: if_splits)

text \<open>
  Claim C6 fails on the code. The job below renders its first frame, the second pass
  through the loop raises, and every run of ffmpeg raises \<open>FileNotFoundError\<close>, as it does
  on a machine without an ffmpeg executable. The handler's call of \<^verbatim>\<open>compile_video\<close>
  stands outside any \<^verbatim>\<open>try\<close>, so the exception leaves \<open>run\<close>: the one generated frame is
  still in the frame directory and the input file still exists (the statements under the
  comment \<^verbatim>\<open># Always clean up temp frames\<close> are not reached), and the job has emitted no
  closing signal, neither the success summary nor a failure of the encoding.
\<close>

theorem interrupted_job_left_by_exception:
  "snd (run demo_worker (demo_env (\<lambda>i. if i = 0 then FrameDone else RaisesBeforeFile)
        (\<lambda>n. EncoderRaises FileNotFoundError)) (new_job {} True)) = Some FileNotFoundError
   \<and> num_frames_generated (fst (run demo_worker
        (demo_env (\<lambda>i. if i = 0 then FrameDone else RaisesBeforeFile)
        (\<lambda>n. EncoderRaises FileNotFoundError)) (new_job {} True))) = 1
   \<and> signals (fst (run demo_worker
        (demo_env (\<lambda>i. if i = 0 then FrameDone else RaisesBeforeFile)
        (\<lambda>n. EncoderRaises FileNotFoundError)) (new_job {} True)))
       = [Progress 1 2, Error (msg_error_processing demo_worker)]
   \<and> temp_files (fst (run demo_worker
        (demo_env (\<lambda>i. if i = 0 then FrameDone else RaisesBeforeFile)
        (\<lambda>n. EncoderRaises FileNotFoundError)) (new_job {} True))) = {frame_file 0}
   \<and> input_exists (fst (run demo_worker
        (demo_env (\<lambda>i. if i = 0 then FrameDone else RaisesBeforeFile)
        (\<lambda>n. EncoderRaises FileNotFoundError)) (new_job {} True)))
   \<and> error_log (fst (run demo_worker
        (demo_env (\<lambda>i. if i = 0 then FrameDone else RaisesBeforeFile)
        (\<lambda>n. EncoderRaises FileNotFoundError)) (new_job {} True)))
       = [FrameGenerationFailed OtherException]
   \<and> length (ffmpeg_invocations (fst (run demo_worker
        (demo_env (\<lambda>i. if i = 0 then FrameDone else RaisesBeforeFile)
        (\<lambda>n. EncoderRaises FileNotFoundError)) (new_job {} True)))) = 1"
  unfolding demo_run_encoder_raises by simp

text \<open>Where the handler's run of ffmpeg returns or raises \<^verbatim>\<open>ffmpeg.Error\<close>, the job does
  what the handler is written for. When the \<^verbatim>\<open>try\<close> body is left by an exception with
  \<open>k > 0\<close> frames counted and no exception leaves \<open>run\<close>, the encoder has been invoked, every
  invocation with the duration of \<open>k\<close> frames on a frame directory that holds the frames
  \<open>0 .. k-1\<close>; the job ends with the success summary for \<open>k\<close> frames, after the failure
  signal of the handler; and afterwards the frame directory holds no \<open>.png\<close> file.\<close>

lemma interrupted_job_encodes_its_frames:
  assumes "try_block w env (new_job T b) = (st_try, Some e)"
      and "num_frames_generated st_try = k" and "0 < k"
      and "run w env (new_job T b) = (stF, None)"
  shows "num_frames_generated stF = k
      \<and> ffmpeg_invocations stF \<noteq> []
      \<and> (\<forall>inv\<in>set (ffmpeg_invocations stF).
            build_request w k = Inr (fst inv)
          \<and> out_t (fst inv) = real k / real_of_int (fps w)
          \<and> snd inv = temp_files st_try
          \<and> frame_file ` {..<k} \<subseteq> snd inv)
      \<and> last (signals stF) = Finished (msg_processed w k)
      \<and> Error (msg_error_processing w) \<in> set (signals stF)
      \<and> (\<forall>f\<in>temp_files stF. \<not> endswith f ''.png'')"
proof -
  obtain st1 raised st2 escaped where
    tb: "try_block w env (new_job T b) = (st1, raised)"
    and inv: "job_invariant w st2"
    and c: "num_frames_generated st2 = num_frames_generated st1"
    and tf: "temp_files st2 = temp_files st1"
    and t1: "T \<subseteq> temp_files st1"
    and ep: "raised \<noteq> None \<longrightarrow> Error (msg_error_processing w) \<in> set (signals st2)"
    and iv: "0 < num_frames_generated st1 \<and> raised \<noteq> None \<longrightarrow> ffmpeg_invocations st2 \<noteq> []"
    and rn: "escaped = None \<longrightarrow> run w env (new_job T b) = (final_report w (cleanup st2), None)"
    and rs: "escaped \<noteq> None \<longrightarrow> run w env (new_job T b) = (st2, escaped)
          \<and> 0 < num_frames_generated st2 \<and> raised \<noteq> None
          \<and> (\<exists>n req files e. ffmpeg_run env n req files = EncoderRaises e \<and> escaped = Some e)"
    by (rule run_summary[of w env T b])
  have e1: "st1 = st_try" "raised = Some e" using tb assms(1) by simp_all
  have esc: "escaped = None" using rs assms(4) by (cases escaped) auto
  then have f: "stF = final_report w (cleanup st2)" using rn assms(4) by simp
  note ce = closing_effect[of w st2]
  have k2: "num_frames_generated st2 = k" using c e1(1) assms(2) by simp
  have c1: "num_frames_generated stF = k" unfolding f using ce k2 by simp
  have i2: "ffmpeg_invocations stF = ffmpeg_invocations st2" unfolding f using ce by simp
  have c2: "ffmpeg_invocations stF \<noteq> []" unfolding i2 using iv e1 assms(2,3) by simp
  have c3: "\<forall>inv\<in>set (ffmpeg_invocations stF).
            build_request w k = Inr (fst inv)
          \<and> out_t (fst inv) = real k / real_of_int (fps w)
          \<and> snd inv = temp_files st_try
          \<and> frame_file ` {..<k} \<subseteq> snd inv"
  proof
    fix p assume "p \<in> set (ffmpeg_invocations stF)"
    then have "(fst p, snd p) \<in> set (ffmpeg_invocations st2)" unfolding i2 by simp
    note j = job_invariant_invocation[OF inv this]
    have b: "build_request w k = Inr (fst p)" using j unfolding k2 by blast
    have t: "out_t (fst p) = real k / real_of_int (fps w)"
      using build_request_fields[OF b] by simp
    have "snd p = temp_files st2" using j by blast
    then have s: "snd p = temp_files st_try" using tf e1(1) by simp
    have g: "frame_file ` {..<k} \<subseteq> snd p" using j unfolding k2 by blast
    show "build_request w k = Inr (fst p)
          \<and> out_t (fst p) = real k / real_of_int (fps w)
          \<and> snd p = temp_files st_try
          \<and> frame_file ` {..<k} \<subseteq> snd p"
      using b t s g by blast
  qed
  have s: "signals stF = signals st2 @ [Finished (msg_processed w k)]"
    unfolding f using ce k2 assms(3) by simp
  have c4: "last (signals stF) = Finished (msg_processed w k)" unfolding s by simp
  have c5: "Error (msg_error_processing w) \<in> set (signals stF)"
    unfolding s using ep e1(2) by simp
  have c6: "\<forall>f\<in>temp_files stF. \<not> endswith f ''.png''" unfolding f by (rule cleanup_no_png)
  show ?thesis
    apply (intro conjI)
    by (rule c1 c2 c3 c4 c5 c6)+
qed

text \<open>What \<^verbatim>\<open>compile_video\<close> asks of ffmpeg for \<open>n\<close> frames: the frames are read at the
  frame rate \<open>fps\<close>, the output is written at the same rate, and its duration is limited to
  \<open>n / fps\<close> seconds. What ffmpeg writes under these options is outside the program.\<close>

lemma compile_video_request:
  assumes "fps w \<noteq> 0"
  shows "\<exists>st' res req. compile_video w env n st = (st', res)
         \<and> ffmpeg_invocations st' = ffmpeg_invocations st @ [(req, temp_files st)]
         \<and> out_t req = real n / real_of_int (fps w)
         \<and> framerate req = fps w \<and> out_r req = fps w"
proof -
  obtain req where req: "build_request w n = Inr req" "framerate req = fps w" "out_r req = fps w"
      "out_t req = real n / real_of_int (fps w)"
    using build_request_Inr[OF assms, of n] by blast
  show ?thesis
    by (cases "ffmpeg_run env (length (ffmpeg_invocations st)) req (temp_files st)")
       (simp_all add: compile_video_def Let_def req)
qed




lemma run_invocations:
  assumes "run w env (new_job T b) = (stF, exF)" and "(req, files) \<in> set (ffmpeg_invocations stF)"
  shows "0 < num_frames_generated stF
     \<and> build_request w (num_frames_generated stF) = Inr req
     \<and> frame_file ` {..<num_frames_generated stF} \<subseteq> files"
proof -
  obtain st1 raised st2 escaped where
    tb: "try_block w env (new_job T b) = (st1, raised)"
    and inv: "job_invariant w st2"
    and c: "num_frames_generated st2 = num_frames_generated st1"
    and tf: "temp_files st2 = temp_files st1"
    and t1: "T \<subseteq> temp_files st1"
    and ep: "raised \<noteq> None \<longrightarrow> Error (msg_error_processing w) \<in> set (signals st2)"
    and iv: "0 < num_frames_generated st1 \<and> raised \<noteq> None \<longrightarrow> ffmpeg_invocations st2 \<noteq> []"
    and rn: "escaped = None \<longrightarrow> run w env (new_job T b) = (final_report w (cleanup st2), None)"
    and rs: "escaped \<noteq> None \<longrightarrow> run w env (new_job T b) = (st2, escaped)
          \<and> 0 < num_frames_generated st2 \<and> raised \<noteq> None
          \<and> (\<exists>n req files e. ffmpeg_run env n req files = EncoderRaises e \<and> escaped = Some e)"
    by (rule run_summary[of w env T b])
  note ce = closing_effect[of w st2]
  have e: "num_frames_generated stF = num_frames_generated st2
      \<and> ffmpeg_invocations stF = ffmpeg_invocations st2"
  proof (cases escaped)
    case None
    then have "stF = final_report w (cleanup st2)" using rn assms(1) by simp
    then show ?thesis using ce by simp
  next
    case (Some x)
    then have "stF = st2" using rs assms(1) by simp
    then show ?thesis by simp
  qed
  have m: "(req, files) \<in> set (ffmpeg_invocations st2)" using assms(2) e by simp
  note j = job_invariant_invocation[OF inv m]
  show ?thesis unfolding conjunct1[OF e] using j by blast
qed

text \<open>
  Claim C10, as amended. After any number \<open>m \<le> num_frames\<close> of passes through the loop,
  completed or interrupted, the counter is at most \<open>m\<close>, every frame file with an index
  below the counter is in the frame directory, and the directory holds nothing else beyond
  what it held before, except that after an exception raised between the writing of a frame
  file and the increment it also holds the file whose index is the counter. When the
  encoder is invoked, with the pattern \<open>frame_%05d.png\<close> and the duration of
  \<open>num_frames_generated\<close> frames, every frame file with an index below the counter exists.
\<close>

theorem render_loop_invariant:
  "(m \<le> nat nf \<and> render_frames w env lc rc fs nf [0..<m] st = (st', ex)
      \<and> num_frames_generated st = 0 \<longrightarrow>
        num_frames_generated st' \<le> m \<and> num_frames_generated st' \<le> nat nf
      \<and> temp_files st \<union> frame_file ` {..<num_frames_generated st'} \<subseteq> temp_files st'
      \<and> (temp_files st' = temp_files st \<union> frame_file ` {..<num_frames_generated st'}
         \<or> (ex \<noteq> None
             \<and> frame_body w env lc rc fs (num_frames_generated st') = RaisesAfterFile
             \<and> temp_files st' = temp_files st \<union> frame_file ` {..num_frames_generated st'})))
   \<and> (run w env (new_job T b) = (stF, exF) \<and> (req, files) \<in> set (ffmpeg_invocations stF) \<longrightarrow>
        frames_pattern req = ''frame_%05d.png''
      \<and> out_t req = real (num_frames_generated stF) / real_of_int (fps w)
      \<and> (\<forall>i<num_frames_generated stF. frame_file i \<in> files))"
proof (intro conjI impI)
  assume a: "m \<le> nat nf \<and> render_frames w env lc rc fs nf [0..<m] st = (st', ex)
      \<and> num_frames_generated st = 0"
  then have l: "render_frames w env lc rc fs nf [0..<m] st = (st', ex)"
    and z: "num_frames_generated st = 0" and mn: "m \<le> nat nf" by simp_all
  note cnt = render_frames_count[OF l z]
  note fil = render_frames_files[OF l z]
  show "num_frames_generated st' \<le> m" using cnt by simp
  then show "num_frames_generated st' \<le> nat nf" using mn by simp
  show d: "temp_files st' = temp_files st \<union> frame_file ` {..<num_frames_generated st'}
         \<or> (ex \<noteq> None
             \<and> frame_body w env lc rc fs (num_frames_generated st') = RaisesAfterFile
             \<and> temp_files st' = temp_files st \<union> frame_file ` {..num_frames_generated st'})"
    using fil unfolding lessThan_atLeast0 atMost_atLeast0 by blast
  show "temp_files st \<union> frame_file ` {..<num_frames_generated st'} \<subseteq> temp_files st'"
    using d by auto
next
  assume a: "run w env (new_job T b) = (stF, exF) \<and> (req, files) \<in> set (ffmpeg_invocations stF)"
  note i = run_invocations[OF conjunct1[OF a] conjunct2[OF a]]
  note f = build_request_fields[OF conjunct1[OF conjunct2[OF i]]]
  show "frames_pattern req = ''frame_%05d.png''" using f by simp
  show "out_t req = real (num_frames_generated stF) / real_of_int (fps w)" using f by simp
  show "\<forall>i<num_frames_generated stF. frame_file i \<in> files" using i by auto
qed

text \<open>Claim C10 as stated fails: when the exception of the first pass comes after the frame
  file is written, the counter is \<open>0\<close> and the frame directory holds \<open>frame_00000.png\<close>.\<close>

theorem frame_file_without_count:
  "num_frames_generated (fst (try_block demo_worker (demo_env (\<lambda>i. RaisesAfterFile) (\<lambda>n. EncoderReturns))
        (new_job {} True))) = 0
   \<and> temp_files (fst (try_block demo_worker (demo_env (\<lambda>i. RaisesAfterFile) (\<lambda>n. EncoderReturns))
        (new_job {} True))) = {frame_file 0}
   \<and> temp_files (fst (try_block demo_worker (demo_env (\<lambda>i. RaisesAfterFile) (\<lambda>n. EncoderReturns))
        (new_job {} True))) \<noteq> frame_file ` {..<0}"
  unfolding demo_try_block
  by (simp add: demo_frame_body new_job_def)

lemma demo_render_second_after_file:
  "render_frames demo_worker (demo_env (\<lambda>i. if i = 0 then FrameDone else RaisesAfterFile) enc)
       lc rc 2 2 [0..<2] (new_job {} True) =
     (\<lparr>num_frames_generated = 1, signals = [Progress 1 2], error_log = [],
       temp_files = {frame_file 0, frame_file 1}, input_exists = True, ffmpeg_invocations = []\<rparr>,
      Some OtherException)"
proof -
  have u: "[0..<2] = [0, 1::nat]" by (simp add: upt_rec)
  show ?thesis unfolding u by (simp add: demo_frame_body new_job_def insert_commute)
qed

lemma demo_run_second_after_file_invocations:
  "ffmpeg_invocations (fst (run demo_worker
        (demo_env (\<lambda>i. if i = 0 then FrameDone else RaisesAfterFile) (\<lambda>n. EncoderReturns))
        (new_job {} True)))
     = [(\<lparr>frames_pattern = ''frame_%05d.png'', framerate = 30,
                target_size = (1280, 720), vcodec = ''libx264'', acodec = ''libmp3lame'',
                audio_bitrate = ''192k'', pix_fmt = ''yuv420p'', out_r = 30,
                out_t = 1 / 30\<rparr>, {frame_file 0, frame_file 1})]"
proof -
  let ?env = "demo_env (\<lambda>i. if i = 0 then FrameDone else RaisesAfterFile) (\<lambda>n. EncoderReturns)"
  have tb: "try_block demo_worker ?env (new_job {} True) =
     (\<lparr>num_frames_generated = 1, signals = [Progress 1 2], error_log = [],
       temp_files = {frame_file 0, frame_file 1}, input_exists = True, ffmpeg_invocations = []\<rparr>,
      Some OtherException)"
    unfolding demo_try_block by (simp add: demo_frame_body new_job_def insert_commute)
  show ?thesis
    unfolding run_unfold tb
    using closing_effect[of demo_worker]
    by (simp add: except_handler_def attempt_compile_def compile_video_def demo_request
          demo_ffmpeg_run Let_def)
qed

theorem render_loop_invariant_witness:
  "num_frames_generated (fst (render_frames demo_worker
        (demo_env (\<lambda>i. if i = 0 then FrameDone else RaisesAfterFile) (\<lambda>n. EncoderReturns))
        [] [] 2 2 [0..<2] (new_job {} True))) = 1
   \<and> temp_files (fst (render_frames demo_worker
        (demo_env (\<lambda>i. if i = 0 then FrameDone else RaisesAfterFile) (\<lambda>n. EncoderReturns))
        [] [] 2 2 [0..<2] (new_job {} True))) = {} \<union> frame_file ` {..1}
   \<and> frame_file 0 \<in> snd (hd (ffmpeg_invocations (fst (run demo_worker
        (demo_env (\<lambda>i. if i = 0 then FrameDone else RaisesAfterFile) (\<lambda>n. EncoderReturns))
        (new_job {} True)))))
   \<and> out_t (fst (hd (ffmpeg_invocations (fst (run demo_worker
        (demo_env (\<lambda>i. if i = 0 then FrameDone else RaisesAfterFile) (\<lambda>n. EncoderReturns))
        (new_job {} True))))))
      = 1 / 30"
proof -
  let ?env = "demo_env (\<lambda>i. if i = 0 then FrameDone else RaisesAfterFile) (\<lambda>n. EncoderReturns)"
  let ?loop = "render_frames demo_worker ?env [] [] 2 2 [0..<2] (new_job {} True)"
  let ?run = "run demo_worker ?env (new_job {} True)"
  let ?req = "fst (hd (ffmpeg_invocations (fst ?run)))"
  let ?files = "snd (hd (ffmpeg_invocations (fst ?run)))"
  note th = render_loop_invariant[of 2 2 demo_worker ?env "[]" "[]" 2 "new_job {} True"
      "fst ?loop" "snd ?loop" "{}" True "fst ?run" "snd ?run" ?req ?files]
  have l: "?loop = (\<lparr>num_frames_generated = 1, signals = [Progress 1 2], error_log = [],
       temp_files = {frame_file 0, frame_file 1}, input_exists = True, ffmpeg_invocations = []\<rparr>,
      Some OtherException)"
    by (rule demo_render_second_after_file)
  have h1: "(2::nat) \<le> nat 2 \<and> ?loop = (fst ?loop, snd ?loop)
      \<and> num_frames_generated (new_job {} True) = 0"
    by (simp add: new_job_def)
  have a: "num_frames_generated (fst ?loop) = 1" unfolding l by simp
  have "temp_files (fst ?loop) = temp_files (new_job {} True) \<union> frame_file ` {..<num_frames_generated (fst ?loop)}
         \<or> (snd ?loop \<noteq> None
             \<and> frame_body demo_worker ?env [] [] 2 (num_frames_generated (fst ?loop)) = RaisesAfterFile
             \<and> temp_files (fst ?loop) = temp_files (new_job {} True) \<union> frame_file ` {..num_frames_generated (fst ?loop)})"
    using conjunct1[OF th] h1 by blast
  then have b: "temp_files (fst ?loop) = {} \<union> frame_file ` {..1}"
    unfolding l by (auto simp: new_job_def lessThan_Suc atMost_Suc)
  have m: "run demo_worker ?env (new_job {} True) = (fst ?run, snd ?run)
      \<and> (?req, ?files) \<in> set (ffmpeg_invocations (fst ?run))"
    unfolding demo_run_second_after_file_invocations by simp
  have n: "num_frames_generated (fst ?run) = 1"
    using conjunct2[OF th] m unfolding demo_run_second_after_file_invocations
    by (simp add: demo_worker_def)
  have c: "frame_file 0 \<in> ?files" using conjunct2[OF th] m n by simp
  have d: "out_t ?req = 1 / 30" using conjunct2[OF th] m n by (simp add: demo_worker_def)
  show ?thesis using a b c d by blast
qed

end
